theory Spec2Isabelle
  imports Main
begin

section \<open>Python string operations used by \<open>virttest/libvirt_storage.py\<close>\<close>

text \<open>
  The module parses the text printed by \<open>virsh\<close>. A Python \<open>str\<close> is modelled as a
  \<open>string\<close>; a \<open>char\<close> stands for a code point below 256. The predicates below are the
  ones CPython uses for \<open>str.strip\<close>, \<open>str.split\<close>, the regex class \<open>\s\<close>
  (\<open>Py_UNICODE_ISSPACE\<close>) and for \<open>str.splitlines\<close> (\<open>Py_UNICODE_ISLINEBREAK\<close>),
  restricted to that range.
\<close>

definition isspace :: "char \<Rightarrow> bool" where
  "isspace c = (c \<in> set [CHR 0x09, CHR 0x0A, CHR 0x0B, CHR 0x0C, CHR 0x0D,
                           CHR 0x1C, CHR 0x1D, CHR 0x1E, CHR 0x1F, CHR 0x20,
                           CHR 0x85, CHR 0xA0])"

definition islinebreak :: "char \<Rightarrow> bool" where
  "islinebreak c = (c \<in> set [CHR 0x0A, CHR 0x0B, CHR 0x0C, CHR 0x0D,
                               CHR 0x1C, CHR 0x1D, CHR 0x1E, CHR 0x85])"

text \<open>\<open>s.lstrip()\<close>, \<open>s.rstrip()\<close> and \<open>s.strip()\<close> without argument.\<close>

definition lstrip :: "string \<Rightarrow> string" where
  "lstrip s = dropWhile isspace s"

definition rstrip :: "string \<Rightarrow> string" where
  "rstrip s = rev (dropWhile isspace (rev s))"

definition strip :: "string \<Rightarrow> string" where
  "strip s = lstrip (rstrip s)"

text \<open>
  \<open>s.splitlines()\<close>: the text is cut at every line boundary, \<open>\r\n\<close> counting as one
  boundary; the boundaries are dropped, and a text that ends with a boundary has no empty
  last line. \<open>cur\<close> is the line read so far.
\<close>

fun splitlines_from :: "string \<Rightarrow> string \<Rightarrow> string list" where
  "splitlines_from cur [] = (if cur = [] then [] else [cur])"
| "splitlines_from cur (c # cs) =
     (if c = CHR 0x0D \<and> take 1 cs = [CHR 0x0A] then cur # splitlines_from [] (drop 1 cs)
      else if islinebreak c then cur # splitlines_from [] cs
      else splitlines_from (cur @ [c]) cs)"

definition splitlines :: "string \<Rightarrow> string list" where
  "splitlines s = splitlines_from [] s"

text \<open>
  \<open>s.split()\<close> without argument: the maximal runs of characters that are not
  whitespace. \<open>cur\<close> is the field read so far.
\<close>

fun split_ws_from :: "string \<Rightarrow> string \<Rightarrow> string list" where
  "split_ws_from cur [] = (if cur = [] then [] else [cur])"
| "split_ws_from cur (c # cs) =
     (if isspace c then (if cur = [] then split_ws_from [] cs else cur # split_ws_from [] cs)
      else split_ws_from (cur @ [c]) cs)"

definition split_ws :: "string \<Rightarrow> string list" where
  "split_ws s = split_ws_from [] s"

text \<open>The exceptions that the methods of the module can raise or catch.\<close>

datatype exc = CmdError | IndexError | KeyError | ValueError | UnboundLocalError

text \<open>
  \<open>s.split(sep)\<close>: the occurrences of \<open>sep\<close> are found from left to right without
  overlap, and the pieces between them are returned; an empty separator raises
  \<open>ValueError\<close>. \<open>cur\<close> is the piece read so far.
\<close>

function split_from :: "string \<Rightarrow> string \<Rightarrow> string \<Rightarrow> string list" where
  "split_from sep cur s =
     (if sep \<noteq> [] \<and> take (length sep) s = sep
      then cur # split_from sep [] (drop (length sep) s)
      else (case s of [] \<Rightarrow> [cur] | c # cs \<Rightarrow> split_from sep (cur @ [c]) cs))"
  by pat_completeness auto
termination
proof (relation "measure (\<lambda>(sep, cur, s). length s)")
  fix sep cur s :: string
  assume a: "sep \<noteq> [] \<and> take (length sep) s = sep"
  then have "s \<noteq> []" by auto
  with a have "length s - length sep < length s" by (cases sep) auto
  then show "((sep, [], drop (length sep) s), (sep, cur, s)) \<in> measure (\<lambda>(sep, cur, s). length s)"
    by simp
qed auto

declare split_from.simps [simp del]

definition split_sep :: "string \<Rightarrow> string \<Rightarrow> exc + string list" where
  "split_sep sep s = (if sep = [] then Inl ValueError else Inr (split_from sep [] s))"

text \<open>\<open>xs[i]\<close> for an index \<open>i \<ge> 0\<close>, and \<open>xs[-1]\<close>.\<close>

definition getitem :: "'a list \<Rightarrow> nat \<Rightarrow> exc + 'a" where
  "getitem xs i = (if i < length xs then Inr (xs ! i) else Inl IndexError)"

definition getitem_last :: "'a list \<Rightarrow> exc + 'a" where
  "getitem_last xs = (if xs = [] then Inl IndexError else Inr (last xs))"

text \<open>
  \<open>re.match("[N|n]ame", column)\<close>: the column starts with one of the three characters
  of the class (\<open>N\<close>, \<open>|\<close>, \<open>n\<close>) followed by \<open>ame\<close>.
\<close>

definition re_match_name :: "string \<Rightarrow> bool" where
  "re_match_name column =
     (case column of [] \<Rightarrow> False
      | c # rest \<Rightarrow> c \<in> set ''N|n'' \<and> take 3 rest = ''ame'')"

text \<open>
  The pattern \<open>\s+\S*/.*\<close> of \<open>list_volumes\<close>, matched at the start of \<open>s\<close>. The
  greedy \<open>\s+\<close> has to take the whole run of whitespace (a shorter run leaves a
  whitespace character where \<open>\S*/\<close> needs a slash); \<open>\S*\<close> then stays inside the
  following run of non-whitespace, which must hold the slash; \<open>.*\<close> takes everything up
  to the next \<open>\n\<close>. The result is the matched text.
\<close>

definition match_path_here :: "string \<Rightarrow> string option" where
  "match_path_here s =
     (let ws = takeWhile isspace s;
          rest = dropWhile isspace s;
          tok = takeWhile (\<lambda>c. \<not> isspace c) rest;
          after = dropWhile (\<lambda>c. \<not> isspace c) rest
      in if ws \<noteq> [] \<and> CHR ''/'' \<in> set tok
         then Some (ws @ tok @ takeWhile (\<lambda>c. c \<noteq> CHR 0x0A) after)
         else None)"

text \<open>
  \<open>re.findall("\s+\S*/.*", line)[0]\<close>: the match at the leftmost position that has one;
  \<open>None\<close> is the \<open>IndexError\<close> of an empty result list.
\<close>

fun findall_path_first :: "string \<Rightarrow> string option" where
  "findall_path_first [] = None"
| "findall_path_first (c # cs) =
     (case match_path_here (c # cs) of
        Some m \<Rightarrow> Some m
      | None \<Rightarrow> findall_path_first cs)"

section \<open>The virsh instance, the logger and the objects\<close>

text \<open>
  The functions of the \<open>virsh\<close> module that the two classes call, with their arguments.
  All but \<open>pool_build\<close> and \<open>pool_destroy\<close> are called with \<open>ignore_status=False\<close>;
  \<open>pool_build\<close> passes the caller's \<open>dargs\<close> on.
\<close>

datatype cmd =
    virsh_pool_list string
  | virsh_pool_info string
  | virsh_pool_destroy string
  | virsh_pool_undefine string
  | virsh_pool_autostart string string
  | virsh_pool_build string string "(string \<times> string) list"
  | virsh_pool_start string
  | virsh_pool_define_as string string string string
  | virsh_vol_list string
  | virsh_vol_info string string
  | virsh_vol_create_as string string string "string option" "string option"
  | virsh_vol_delete string string
  | virsh_vol_clone string string string

text \<open>
  The \<open>virsh\<close> module is not part of the file: it is a parameter. \<open>'w\<close> is the state of
  the libvirt daemon. \<open>command\<close> runs a function that returns a \<open>CmdResult\<close>
  (\<open>Some\<close> of its \<open>stdout_text\<close>) or raises \<open>process.CmdError\<close> (\<open>None\<close>);
  \<open>pool_destroy\<close> returns a boolean.
\<close>

record 'w virsh =
  command :: "cmd \<Rightarrow> 'w \<Rightarrow> string option \<times> 'w"
  pool_destroy :: "string \<Rightarrow> 'w \<Rightarrow> bool \<times> 'w"

datatype level = ERROR | INFO | DEBUG

text \<open>
  What a method can read and change: the object it is called on, the daemon behind
  \<open>virsh\<close>, the virsh functions called so far, and the records written to \<open>LOG\<close>
  (level and format string; the arguments of a record are not kept).
\<close>

record ('o, 'w) state =
  self :: 'o
  world :: 'w
  calls :: "cmd list"
  log_records :: "(level \<times> string) list"

type_synonym ('o, 'w, 'a) pymethod = "('o, 'w) state \<Rightarrow> (exc + 'a) \<times> ('o, 'w) state"

definition py_return :: "'a \<Rightarrow> ('o, 'w, 'a) pymethod" where
  "py_return x s = (Inr x, s)"

definition py_raise :: "exc \<Rightarrow> ('o, 'w, 'a) pymethod" where
  "py_raise e s = (Inl e, s)"

definition py_bind :: "('o, 'w, 'a) pymethod \<Rightarrow> ('a \<Rightarrow> ('o, 'w, 'b) pymethod) \<Rightarrow> ('o, 'w, 'b) pymethod" where
  "py_bind m f s = (case m s of (Inl e, s') \<Rightarrow> (Inl e, s') | (Inr x, s') \<Rightarrow> f x s')"

text \<open>\<open>try: m except (es): h\<close>; an exception raised by the handler is not caught.\<close>

definition py_try :: "('o, 'w, 'a) pymethod \<Rightarrow> exc list \<Rightarrow> ('o, 'w, 'a) pymethod \<Rightarrow> ('o, 'w, 'a) pymethod" where
  "py_try m es h s =
     (case m s of
        (Inl e, s') \<Rightarrow> if e \<in> set es then h s' else (Inl e, s')
      | (Inr x, s') \<Rightarrow> (Inr x, s'))"

definition py_lift :: "exc + 'a \<Rightarrow> ('o, 'w, 'a) pymethod" where
  "py_lift r s = (r, s)"

definition LOG :: "level \<Rightarrow> string \<Rightarrow> ('o, 'w, unit) pymethod" where
  "LOG lvl msg s = (Inr (), s\<lparr>log_records := log_records s @ [(lvl, msg)]\<rparr>)"

definition run_command :: "('o \<Rightarrow> 'w virsh) \<Rightarrow> cmd \<Rightarrow> ('o, 'w, string) pymethod" where
  "run_command inst c s =
     (case command (inst (self s)) c (world s) of
        (r, w) \<Rightarrow>
          ((case r of None \<Rightarrow> Inl CmdError | Some stdout_text \<Rightarrow> Inr stdout_text),
           s\<lparr>world := w, calls := calls s @ [c]\<rparr>))"

definition run_pool_destroy :: "('o \<Rightarrow> 'w virsh) \<Rightarrow> string \<Rightarrow> ('o, 'w, bool) pymethod" where
  "run_pool_destroy inst name s =
     (case pool_destroy (inst (self s)) name (world s) of
        (r, w) \<Rightarrow> (Inr r, s\<lparr>world := w, calls := calls s @ [virsh_pool_destroy name]\<rparr>))"

text \<open>\<open>d[k]\<close> on a dict.\<close>

definition dict_get :: "('k \<rightharpoonup> 'v) \<Rightarrow> 'k \<Rightarrow> exc + 'v" where
  "dict_get d k = (case d k of None \<Rightarrow> Inl KeyError | Some v \<Rightarrow> Inr v)"

section \<open>class StoragePool\<close>

record 'w StoragePool =
  virsh_instance :: "'w virsh"

type_synonym 'w sp_state = "('w StoragePool, 'w) state"

definition sp_virsh :: "cmd \<Rightarrow> ('w StoragePool, 'w, string) pymethod" where
  "sp_virsh c = run_command StoragePool.virsh_instance c"

subsection \<open>list_pools\<close>

text \<open>
  The inner \<open>while\<close> loop over \<open>enumerate(head.split())\<close>. \<open>pool_name\<close> is a local
  variable of the method; \<open>None\<close> says that it has not been assigned yet.
\<close>

fun head_loop :: "(nat \<times> string) list \<Rightarrow> string list \<Rightarrow> string option \<Rightarrow> (string \<rightharpoonup> string)
    \<Rightarrow> exc + (string option \<times> (string \<rightharpoonup> string))" where
  "head_loop [] details pool_name details_dict = Inr (pool_name, details_dict)"
| "head_loop ((index, column) # head_iter) details pool_name details_dict =
     (if re_match_name column then
        (case getitem details index of
           Inl e \<Rightarrow> Inl e
         | Inr v \<Rightarrow> head_loop head_iter details (Some v) details_dict)
      else
        (case getitem details index of
           Inl e \<Rightarrow> Inl e
         | Inr v \<Rightarrow> head_loop head_iter details pool_name (details_dict(column \<mapsto> v))))"

text \<open>The \<open>for line in lines\<close> loop.\<close>

fun lines_loop :: "string \<Rightarrow> string list \<Rightarrow> string option \<Rightarrow> (string \<rightharpoonup> (string \<rightharpoonup> string))
    \<Rightarrow> exc + (string \<rightharpoonup> (string \<rightharpoonup> string))" where
  "lines_loop head [] pool_name pools = Inr pools"
| "lines_loop head (line # lines) pool_name pools =
     (case head_loop (enumerate 0 (split_ws head)) (split_ws line) pool_name Map.empty of
        Inl e \<Rightarrow> Inl e
      | Inr (pool_name', details_dict) \<Rightarrow>
          (case pool_name' of
             None \<Rightarrow> Inl UnboundLocalError
           | Some n \<Rightarrow> lines_loop head lines pool_name' (pools(n \<mapsto> details_dict))))"

text \<open>The method from \<open>pools = {}\<close> on, given the \<open>stdout_text\<close> of the result.\<close>

definition list_pools_parse :: "string \<Rightarrow> exc + (string \<rightharpoonup> (string \<rightharpoonup> string))" where
  "list_pools_parse stdout_text =
     (let lines = splitlines (strip stdout_text)
      in if length lines > 2 then lines_loop (hd lines) (drop 2 lines) None Map.empty
         else Inr Map.empty)"

definition list_pools :: "('w StoragePool, 'w, string \<rightharpoonup> (string \<rightharpoonup> string)) pymethod" where
  "list_pools =
     py_bind (sp_virsh (virsh_pool_list ''--all'')) (\<lambda>stdout_text.
     py_lift (list_pools_parse stdout_text))"

subsection \<open>The queries built on list_pools and pool_info\<close>

definition pool_exists :: "string \<Rightarrow> ('w StoragePool, 'w, bool) pymethod" where
  "pool_exists name =
     py_try (py_bind list_pools (\<lambda>pools. py_return (pools name \<noteq> None)))
       [CmdError] (py_return False)"

definition pool_state :: "string \<Rightarrow> ('w StoragePool, 'w, string option) pymethod" where
  "pool_state name =
     py_try
       (py_bind list_pools (\<lambda>pools.
        py_bind (py_lift (dict_get pools name)) (\<lambda>details.
        py_bind (py_lift (dict_get details ''State'')) (\<lambda>v.
        py_return (Some v)))))
       [CmdError, KeyError] (py_return None)"

definition pool_autostart :: "string \<Rightarrow> ('w StoragePool, 'w, string option) pymethod" where
  "pool_autostart name =
     py_try
       (py_bind list_pools (\<lambda>pools.
        py_bind (py_lift (dict_get pools name)) (\<lambda>details.
        py_bind (py_lift (dict_get details ''Autostart'')) (\<lambda>v.
        py_return (Some v)))))
       [CmdError, KeyError] (py_return None)"

text \<open>The body of the \<open>for line in result.stdout_text.splitlines()\<close> loop of \<open>pool_info\<close>.\<close>

definition pool_info_line :: "string \<Rightarrow> (string \<rightharpoonup> string) \<Rightarrow> (string \<rightharpoonup> string)" where
  "pool_info_line line info =
     (let params = split_from '':'' [] line
      in if length params = 2 then info(strip (params ! 0) \<mapsto> strip (params ! 1)) else info)"

definition pool_info_parse :: "string \<Rightarrow> (string \<rightharpoonup> string)" where
  "pool_info_parse stdout_text = fold pool_info_line (splitlines stdout_text) Map.empty"

definition pool_info :: "string \<Rightarrow> ('w StoragePool, 'w, string \<rightharpoonup> string) pymethod" where
  "pool_info name =
     py_try
       (py_bind (sp_virsh (virsh_pool_info name)) (\<lambda>stdout_text.
        py_return (pool_info_parse stdout_text)))
       [CmdError] (py_return Map.empty)"

definition get_pool_uuid :: "string \<Rightarrow> ('w StoragePool, 'w, string) pymethod" where
  "get_pool_uuid name =
     py_bind (pool_info name) (\<lambda>info. py_lift (dict_get info ''UUID''))"

definition is_pool_active :: "string \<Rightarrow> ('w StoragePool, 'w, bool) pymethod" where
  "is_pool_active name =
     py_bind (pool_state name) (\<lambda>st. if st = Some ''active'' then py_return True else py_return False)"

definition is_pool_persistent :: "string \<Rightarrow> ('w StoragePool, 'w, bool) pymethod" where
  "is_pool_persistent name =
     py_bind (pool_info name) (\<lambda>info.
     py_bind (py_lift (dict_get info ''Persistent'')) (\<lambda>v.
     if v = ''yes'' then py_return True else py_return False))"

subsection \<open>The methods that change pools\<close>

definition delete_pool :: "string \<Rightarrow> ('w StoragePool, 'w, bool) pymethod" where
  "delete_pool name =
     py_bind (is_pool_active name) (\<lambda>active.
     py_bind (if active then run_pool_destroy StoragePool.virsh_instance name
              else py_return True) (\<lambda>destroyed.
     if \<not> destroyed then
       py_bind (LOG ERROR ''Destroy pool '%s' failed.'') (\<lambda>_. py_return False)
     else
       py_bind (py_try (py_bind (sp_virsh (virsh_pool_undefine name)) (\<lambda>_. py_return False))
                  [CmdError] (pool_exists name)) (\<lambda>still_defined.
       if still_defined then
         py_bind (LOG ERROR ''Undefine pool '%s' failed:%s'') (\<lambda>_. py_return False)
       else
         py_bind (LOG INFO (''Deleted pool '%s'' @ [CHR 0x27])) (\<lambda>_. py_return True))))"

definition set_pool_autostart :: "string \<Rightarrow> string \<Rightarrow> ('w StoragePool, 'w, bool) pymethod" where
  "set_pool_autostart name extra =
     py_try
       (py_bind (sp_virsh (virsh_pool_autostart name extra)) (\<lambda>_.
        py_bind (LOG INFO ''Set pool '%s' autostart.'') (\<lambda>_. py_return True)))
       [CmdError]
       (py_bind (LOG ERROR ''Autostart pool '%s' failed.'') (\<lambda>_. py_return False))"

definition build_pool :: "string \<Rightarrow> string \<Rightarrow> (string \<times> string) list \<Rightarrow> ('w StoragePool, 'w, bool) pymethod" where
  "build_pool name options dargs =
     py_try
       (py_bind (sp_virsh (virsh_pool_build name options dargs)) (\<lambda>_.
        py_bind (LOG INFO (''Built pool '%s'' @ [CHR 0x27])) (\<lambda>_. py_return True)))
       [CmdError]
       (py_bind (LOG ERROR ''Build pool '%s' failed.'') (\<lambda>_. py_return False))"

definition start_pool :: "string \<Rightarrow> ('w StoragePool, 'w, bool) pymethod" where
  "start_pool name =
     py_bind (is_pool_active name) (\<lambda>active.
     if active then
       py_bind (LOG INFO ''Pool '%s' is already active.'') (\<lambda>_. py_return True)
     else
       py_try
         (py_bind (sp_virsh (virsh_pool_start name)) (\<lambda>_.
          py_bind (LOG INFO (''Started pool '%s'' @ [CHR 0x27])) (\<lambda>_. py_return True)))
         [CmdError]
         (py_bind (LOG ERROR ''Start pool '%s' failed: %s'') (\<lambda>_. py_return False)))"

definition destroy_pool :: "string \<Rightarrow> ('w StoragePool, 'w, bool) pymethod" where
  "destroy_pool name =
     py_bind (is_pool_active name) (\<lambda>active.
     if \<not> active then
       py_bind (LOG INFO ''pool '%s' is already inactive.'') (\<lambda>_. py_return True)
     else run_pool_destroy StoragePool.virsh_instance name)"

text \<open>
  The seven \<open>define_*_pool\<close> methods share one shape: build \<open>extra\<close>, call
  \<open>pool_define_as\<close>, log. \<open>define_as\<close> is that shape.
\<close>

definition define_as :: "string \<Rightarrow> string \<Rightarrow> string \<Rightarrow> string \<Rightarrow> string \<Rightarrow> string
    \<Rightarrow> ('w StoragePool, 'w, bool) pymethod" where
  "define_as name pool_type target_path extra ok_msg err_msg =
     py_try
       (py_bind (sp_virsh (virsh_pool_define_as name pool_type target_path extra)) (\<lambda>_.
        py_bind (LOG INFO ok_msg) (\<lambda>_. py_return True)))
       [CmdError]
       (py_bind (LOG ERROR err_msg) (\<lambda>_. py_return False))"

definition define_dir_pool :: "string \<Rightarrow> string \<Rightarrow> ('w StoragePool, 'w, bool) pymethod" where
  "define_dir_pool name target_path =
     define_as name ''dir'' target_path [] (''Defined pool '%s'' @ [CHR 0x27]) ''Define dir pool '%s' failed.''"

definition define_fs_pool :: "string \<Rightarrow> string \<Rightarrow> string \<Rightarrow> ('w StoragePool, 'w, bool) pymethod" where
  "define_fs_pool name block_device target_path =
     define_as name ''fs'' target_path (''--source-dev '' @ block_device)
       (''Defined pool '%s'' @ [CHR 0x27]) ''Define fs pool '%s' failed.''"

definition define_lvm_pool :: "string \<Rightarrow> string \<Rightarrow> string \<Rightarrow> string \<Rightarrow> ('w StoragePool, 'w, bool) pymethod" where
  "define_lvm_pool name block_device vg_name target_path =
     define_as name ''logical'' target_path
       (''--source-dev '' @ block_device @ '' --source-name '' @ vg_name)
       (''Defined pool '%s'' @ [CHR 0x27]) ''Define logic pool '%s' failed.''"

definition define_disk_pool :: "string \<Rightarrow> string \<Rightarrow> string \<Rightarrow> ('w StoragePool, 'w, bool) pymethod" where
  "define_disk_pool name block_device target_path =
     define_as name ''disk'' target_path (''--source-dev '' @ block_device)
       (''Defined pool '%s'' @ [CHR 0x27]) ''Define disk pool '%s' failed.''"

definition define_iscsi_pool :: "string \<Rightarrow> string \<Rightarrow> string \<Rightarrow> string \<Rightarrow> ('w StoragePool, 'w, bool) pymethod" where
  "define_iscsi_pool name source_host source_dev target_path =
     define_as name ''iscsi'' target_path
       (''--source-host '' @ source_host @ ''  --source-dev '' @ source_dev)
       (''Define pool '%s'' @ [CHR 0x27]) ''Define iscsi pool '%s' failed.''"

definition define_netfs_pool :: "string \<Rightarrow> string \<Rightarrow> string \<Rightarrow> string \<Rightarrow> ('w StoragePool, 'w, bool) pymethod" where
  "define_netfs_pool name source_host source_path target_path =
     define_as name ''netfs'' target_path
       (''--source-host '' @ source_host @ '' --source-path '' @ target_path)
       (''Define pool '%s'' @ [CHR 0x27]) ''Define netfs pool '%s' failed.''"

definition define_rbd_pool :: "string \<Rightarrow> string \<Rightarrow> string \<Rightarrow> string \<Rightarrow> ('w StoragePool, 'w, bool) pymethod" where
  "define_rbd_pool name source_host source_name extra =
     define_as name ''rbd'' []
       (''--source-host '' @ source_host @ '' --source-name '' @ source_name @ '' '' @ extra)
       (''Define pool '%s'' @ [CHR 0x27]) ''Define rbd pool '%s' failed.''"

section \<open>class PoolVolume\<close>

record 'w PoolVolume =
  pool_name :: string
  virsh_instance :: "'w virsh"

type_synonym 'w pv_state = "('w PoolVolume, 'w) state"

definition pv_virsh :: "cmd \<Rightarrow> ('w PoolVolume, 'w, string) pymethod" where
  "pv_virsh c = run_command PoolVolume.virsh_instance c"

subsection \<open>list_volumes\<close>

text \<open>
  The body of the \<open>for line in lines\<close> loop: \<open>path\<close> is the first match of the pattern
  or, after the caught \<open>IndexError\<close>, the empty string; \<open>line.split(path)\<close> follows.
\<close>

definition list_volumes_line :: "string \<Rightarrow> (string \<rightharpoonup> string) \<Rightarrow> exc + (string \<rightharpoonup> string)" where
  "list_volumes_line line volumes =
     (let path = (case findall_path_first line of Some m \<Rightarrow> m | None \<Rightarrow> [])
      in case split_sep path line of
           Inl e \<Rightarrow> Inl e
         | Inr parts \<Rightarrow>
             (case getitem parts 0 of
                Inl e \<Rightarrow> Inl e
              | Inr part \<Rightarrow> Inr (volumes(lstrip part \<mapsto> strip path))))"

fun list_volumes_loop :: "string list \<Rightarrow> (string \<rightharpoonup> string) \<Rightarrow> exc + (string \<rightharpoonup> string)" where
  "list_volumes_loop [] volumes = Inr volumes"
| "list_volumes_loop (line # lines) volumes =
     (case list_volumes_line line volumes of
        Inl e \<Rightarrow> Inl e
      | Inr volumes' \<Rightarrow> list_volumes_loop lines volumes')"

definition list_volumes_parse :: "string \<Rightarrow> exc + (string \<rightharpoonup> string)" where
  "list_volumes_parse stdout_text =
     (let lines = splitlines (strip stdout_text)
      in if length lines > 2 then list_volumes_loop (drop 2 lines) Map.empty
         else Inr Map.empty)"

definition list_volumes :: "('w PoolVolume, 'w, string \<rightharpoonup> string) pymethod" where
  "list_volumes s =
     (case pv_virsh (virsh_vol_list (pool_name (self s))) s of
        (Inl e, s') \<Rightarrow>
          if e = CmdError
          then py_bind (LOG ERROR ''List volume failed: %s'') (\<lambda>_. py_return Map.empty) s'
          else (Inl e, s')
      | (Inr stdout_text, s') \<Rightarrow> py_lift (list_volumes_parse stdout_text) s')"

definition volume_exists :: "string \<Rightarrow> ('w PoolVolume, 'w, bool) pymethod" where
  "volume_exists name =
     py_bind list_volumes (\<lambda>volumes. py_return (volumes name \<noteq> None))"

subsection \<open>volume_info\<close>

text \<open>The body of the loop of \<open>volume_info\<close>: \<open>attr\<close> and \<open>value\<close> of one line.\<close>

definition volume_info_line :: "string \<Rightarrow> (string \<rightharpoonup> string) \<Rightarrow> exc + (string \<rightharpoonup> string)" where
  "volume_info_line line info =
     (case getitem (split_from '':'' [] line) 0 of
        Inl e \<Rightarrow> Inl e
      | Inr attr \<Rightarrow>
          (case split_sep (attr @ '':'') line of
             Inl e \<Rightarrow> Inl e
           | Inr parts \<Rightarrow>
               (case getitem_last parts of
                  Inl e \<Rightarrow> Inl e
                | Inr v \<Rightarrow> Inr (info(attr \<mapsto> strip v)))))"

fun volume_info_loop :: "string list \<Rightarrow> (string \<rightharpoonup> string) \<Rightarrow> exc + (string \<rightharpoonup> string)" where
  "volume_info_loop [] info = Inr info"
| "volume_info_loop (line # lines) info =
     (case volume_info_line line info of
        Inl e \<Rightarrow> Inl e
      | Inr info' \<Rightarrow> volume_info_loop lines info')"

definition volume_info_parse :: "string \<Rightarrow> exc + (string \<rightharpoonup> string)" where
  "volume_info_parse stdout_text = volume_info_loop (splitlines (strip stdout_text)) Map.empty"

definition volume_info :: "string \<Rightarrow> ('w PoolVolume, 'w, string \<rightharpoonup> string) pymethod" where
  "volume_info name s =
     (case pv_virsh (virsh_vol_info name (pool_name (self s))) s of
        (Inl e, s') \<Rightarrow>
          if e = CmdError
          then py_bind (LOG ERROR ''Get volume information failed: %s'') (\<lambda>_. py_return Map.empty) s'
          else (Inl e, s')
      | (Inr stdout_text, s') \<Rightarrow> py_lift (volume_info_parse stdout_text) s')"

subsection \<open>create_volume, delete_volume, clone_volume\<close>

text \<open>
  The \<open>try\<close> statement around a virsh function whose result is not used: \<open>True\<close> when
  the function returned, \<open>False\<close> after the \<open>except process.CmdError\<close> branch has
  written its record (the method then returns \<open>False\<close>).
\<close>

definition pv_try_command :: "cmd \<Rightarrow> string \<Rightarrow> ('w PoolVolume, 'w, bool) pymethod" where
  "pv_try_command c err_msg =
     py_try (py_bind (pv_virsh c) (\<lambda>_. py_return True))
       [CmdError]
       (py_bind (LOG ERROR err_msg) (\<lambda>_. py_return False))"

definition create_volume :: "string \<Rightarrow> string \<Rightarrow> string option \<Rightarrow> string option
    \<Rightarrow> ('w PoolVolume, 'w, bool) pymethod" where
  "create_volume name capability allocation frmt =
     py_bind (volume_exists name) (\<lambda>present.
     if present then
       py_bind (LOG DEBUG ''Volume '%s' already exists.'') (\<lambda>_. py_return False)
     else (\<lambda>s.
       py_bind
         (pv_try_command (virsh_vol_create_as name (pool_name (self s)) capability allocation frmt)
            ''Create volume failed:%s'')
         (\<lambda>created.
            if \<not> created then py_return False
            else
              py_bind (volume_exists name) (\<lambda>present'.
              if \<not> present' then
                py_bind list_volumes (\<lambda>_.
                py_bind (LOG ERROR ''Created volume does not exist:%s'') (\<lambda>_. py_return False))
              else py_return True)) s))"

definition delete_volume :: "string \<Rightarrow> ('w PoolVolume, 'w, bool) pymethod" where
  "delete_volume name =
     py_bind (volume_exists name) (\<lambda>present.
     if present then (\<lambda>s.
       py_bind
         (pv_try_command (virsh_vol_delete name (pool_name (self s))) ''Delete volume failed:%s'')
         (\<lambda>deleted.
            if \<not> deleted then py_return False
            else
              py_bind (volume_exists name) (\<lambda>present'.
              if \<not> present' then
                py_bind (LOG DEBUG ''Volume '%s' has been deleted.'') (\<lambda>_. py_return True)
              else
                py_bind (LOG DEBUG ''Delete volume '%s' failed.'') (\<lambda>_. py_return False))) s)
     else
       py_bind (LOG INFO ''Volume '%s' does not exist.'') (\<lambda>_. py_return True))"

definition clone_volume :: "string \<Rightarrow> string \<Rightarrow> ('w PoolVolume, 'w, bool) pymethod" where
  "clone_volume old_name new_name =
     py_bind (volume_exists old_name) (\<lambda>old_present.
     py_bind (if old_present then volume_exists new_name else py_return False) (\<lambda>new_present.
     if old_present \<and> \<not> new_present then (\<lambda>s.
       py_bind
         (pv_try_command (virsh_vol_clone old_name new_name (pool_name (self s)))
            ''Clone volume failed:%s'')
         (\<lambda>cloned.
            if \<not> cloned then py_return False
            else
              py_bind (volume_exists new_name) (\<lambda>present'.
              if present' then
                py_bind (LOG DEBUG ''Volume '%s' has been created by clone.'') (\<lambda>_. py_return True)
              else
                py_bind (LOG DEBUG ''Volume '%s' clone failed.'') (\<lambda>_. py_return False))) s)
     else
       py_bind (LOG INFO ''Volume '%s' does not exist or '%s' has been exist.'') (\<lambda>_. py_return False)))"

section \<open>A virsh instance for the examples\<close>

text \<open>
  The daemon behind \<open>scripted_virsh\<close> is the list of the replies still to come: every
  call takes the next one (\<open>None\<close>: the command fails), and fails once the list is empty.
\<close>

definition scripted_virsh :: "string option list virsh" where
  "scripted_virsh =
     \<lparr>command = (\<lambda>c w. case w of [] \<Rightarrow> (None, []) | r # rs \<Rightarrow> (r, rs)),
      pool_destroy = (\<lambda>name w. case w of [] \<Rightarrow> (False, []) | r # rs \<Rightarrow> (r \<noteq> None, rs))\<rparr>"

definition sp_example :: "string option list \<Rightarrow> string option list sp_state" where
  "sp_example replies =
     \<lparr>self = \<lparr>StoragePool.virsh_instance = scripted_virsh\<rparr>,
      world = replies, calls = [], log_records = []\<rparr>"

definition pv_example :: "string option list \<Rightarrow> string option list pv_state" where
  "pv_example replies =
     \<lparr>self = \<lparr>pool_name = ''p'', virsh_instance = scripted_virsh\<rparr>,
      world = replies, calls = [], log_records = []\<rparr>"

definition pool_table :: string where
  "pool_table =
     '' Name      State    Autostart\<newline>------------------------------\<newline> default   active   yes\<newline> images    inactive no\<newline>''"

definition vol_table :: string where
  "vol_table =
     '' Name   Path\<newline>---------------------\<newline> vol1   /var/lib/vol1\<newline>''"

definition empty_table :: string where
  "empty_table = '' Name   Path\<newline>---------------------\<newline>''"

section \<open>The dicts that the specification describes\<close>

text \<open>
  \<open>pool_info\<close>, in the specification's words: a line that has exactly one colon gives
  the entry from the stripped text before the colon to the stripped text after it, any
  other line gives none, and the dict holds these entries, a later line replacing an
  earlier one with the same key.
\<close>

definition spec_pool_info_entry :: "string \<Rightarrow> (string \<times> string) list" where
  "spec_pool_info_entry line =
     (if count_list line CHR '':'' = 1
      then [(strip (takeWhile (\<lambda>c. c \<noteq> CHR '':'') line),
             strip (drop 1 (dropWhile (\<lambda>c. c \<noteq> CHR '':'') line)))]
      else [])"

definition spec_pool_info :: "string \<Rightarrow> (string \<rightharpoonup> string)" where
  "spec_pool_info stdout_text =
     map_of (rev (concat (map spec_pool_info_entry (splitlines stdout_text))))"

definition info_text :: string where
  "info_text = ''Name:   default\<newline>UUID:   0a1b\<newline>Capacity: 1:2\<newline>State  running\<newline>''"

text \<open>
  \<open>list_pools\<close>, in the specification's words. The header columns are paired with the
  fields of a line by position. The key of the line is the field under the column that
  matches \<open>[N|n]ame\<close> (the last one when several match), and its value maps every other
  column name to the field under it (the last column of that name when it is repeated).
  The dict holds one entry for each line after the second, a later line replacing an
  earlier one with the same key.
\<close>

definition spec_pool_name :: "string list \<Rightarrow> string list \<Rightarrow> string option" where
  "spec_pool_name columns cells =
     (case filter (\<lambda>(column, v). re_match_name column) (zip columns cells) of
        [] \<Rightarrow> None
      | x # xs \<Rightarrow> Some (snd (last (x # xs))))"

definition spec_pool_details :: "string list \<Rightarrow> string list \<Rightarrow> (string \<rightharpoonup> string)" where
  "spec_pool_details columns cells =
     map_of (rev (filter (\<lambda>(column, v). \<not> re_match_name column) (zip columns cells)))"

definition spec_pool_entry :: "string list \<Rightarrow> string \<Rightarrow> (string \<times> (string \<rightharpoonup> string)) list" where
  "spec_pool_entry columns line =
     (case spec_pool_name columns (split_ws line) of
        None \<Rightarrow> []
      | Some name \<Rightarrow> [(name, spec_pool_details columns (split_ws line))])"

definition spec_list_pools :: "string \<Rightarrow> (string \<rightharpoonup> (string \<rightharpoonup> string))" where
  "spec_list_pools stdout_text =
     (let lines = splitlines (strip stdout_text)
      in if length lines > 2
         then map_of (rev (concat (map (spec_pool_entry (split_ws (hd lines))) (drop 2 lines))))
         else Map.empty)"

definition well_formed_table :: "string \<Rightarrow> bool" where
  "well_formed_table stdout_text =
     (let lines = splitlines (strip stdout_text); columns = split_ws (hd lines)
      in list_ex re_match_name columns
       \<and> list_all (\<lambda>line. length columns \<le> length (split_ws line)) (drop 2 lines))"

text \<open>A table whose third line has fewer fields than the header has columns.\<close>

definition short_row_table :: string where
  "short_row_table = ''Name State\<newline>----------\<newline>default''"

text \<open>\<open>sep in s\<close>: the text \<open>sep\<close> occurs somewhere in \<open>s\<close>.\<close>

fun occurs_in :: "string \<Rightarrow> string \<Rightarrow> bool" where
  "occurs_in sep [] = (sep = [])"
| "occurs_in sep (c # cs) = (take (length sep) (c # cs) = sep \<or> occurs_in sep cs)"

text \<open>A line in which the attribute name followed by a colon occurs twice.\<close>

definition repeated_attr_text :: string where
  "repeated_attr_text = ''a:b a:c''"

text \<open>A volume table whose third line has no text that the path pattern matches.\<close>

definition no_path_table :: string where
  "no_path_table = '' Name   Path\<newline>---------------------\<newline> vol1   vol1.img\<newline>''"

text \<open>A method that leaves the fields of the object it is called on as they are.\<close>

definition keeps_self :: "('o, 'w, 'a) pymethod \<Rightarrow> bool" where
  "keeps_self m = (\<forall>s. self (snd (m s)) = self s)"

text \<open>The virsh function \<open>c\<close> raises \<open>process.CmdError\<close> when the daemon is in state \<open>w\<close>.\<close>

definition cmd_fails :: "'w virsh \<Rightarrow> cmd \<Rightarrow> 'w \<Rightarrow> bool" where
  "cmd_fails v c w = (fst (command v c w) = None)"

text \<open>
  The outcome \<open>r\<close> of a method is the return value \<open>False\<close>, and the log is the log of
  the state \<open>s1\<close> followed by one \<open>ERROR\<close> record.
\<close>

definition False_after_error_record :: "('o, 'w) state \<Rightarrow> (exc + bool) \<times> ('o, 'w) state \<Rightarrow> bool" where
  "False_after_error_record s1 r =
     (fst r = Inr False
      \<and> (case rev (log_records (snd r)) of
            [] \<Rightarrow> False
          | (lvl, msg) # before \<Rightarrow> lvl = ERROR \<and> rev before = log_records s1))"

text \<open>\<open>s.find(sep)\<close>: the index of the first occurrence of \<open>sep\<close> in \<open>s\<close>, if there is one.\<close>

fun find_first :: "string \<Rightarrow> string \<Rightarrow> nat option" where
  "find_first sep [] = (if sep = [] then Some 0 else None)"
| "find_first sep (c # cs) =
     (if take (length sep) (c # cs) = sep then Some 0 else map_option Suc (find_first sep cs))"

text \<open>
  The text that follows the last occurrence of \<open>sep\<close> in \<open>s\<close>, the occurrences being found
  from left to right without overlap: each search starts behind the occurrence found
  before. It is all of \<open>s\<close> when \<open>sep\<close> does not occur.
\<close>

function after_last_occurrence :: "string \<Rightarrow> string \<Rightarrow> string" where
  "after_last_occurrence sep s =
     (if sep = [] then s
      else case find_first sep s of
             None \<Rightarrow> s
           | Some i \<Rightarrow> after_last_occurrence sep (drop (i + length sep) s))"
  by pat_completeness auto
termination
proof (relation "measure (\<lambda>(sep, s). length s)")
  fix sep s :: string and i :: nat
  assume n: "sep \<noteq> []" and f: "find_first sep s = Some i"
  have "j + length sep \<le> length t" if "find_first sep t = Some j" for t j
    using that
  proof (induction t arbitrary: j)
    case Nil
    then show ?case by (simp split: if_splits)
  next
    case (Cons c cs)
    show ?case
    proof (cases "take (length sep) (c # cs) = sep")
      case True
      then have "length (take (length sep) (c # cs)) = length sep"
        by (rule arg_cong)
      then have "min (length (c # cs)) (length sep) = length sep"
        by (simp only: length_take)
      then have "length sep \<le> length (c # cs)"
        by linarith
      then show ?thesis
        using True Cons.prems by simp
    next
      case False
      then obtain k where "find_first sep cs = Some k" "j = Suc k"
        using Cons.prems by auto
      then show ?thesis
        using Cons.IH[of k] by simp
    qed
  qed
  from this[OF f] have "length s - (i + length sep) < length s"
    using n by (cases sep) auto
  then show "((sep, drop (i + length sep) s), (sep, s)) \<in> measure (\<lambda>(sep, s). length s)"
    by simp
qed simp

declare after_last_occurrence.simps [simp del]

text \<open>A line in which the attribute name followed by a colon occurs three times.\<close>

definition thrice_attr_line :: string where
  "thrice_attr_line = ''a:b a:c a:d''"

section \<open>Frame lemmas of the primitives\<close>

lemmas py_defs = py_return_def py_raise_def py_bind_def py_try_def py_lift_def LOG_def
  run_command_def run_pool_destroy_def sp_virsh_def pv_virsh_def

lemma list_volumes_calls:
  "calls (snd (list_volumes s)) = calls s @ [virsh_vol_list (pool_name (self s))]"
  by (simp add: list_volumes_def py_defs split: prod.splits option.splits)

lemma list_volumes_self: "self (snd (list_volumes s)) = self s"
  by (simp add: list_volumes_def py_defs split: prod.splits option.splits)

lemma volume_exists_snd: "snd (volume_exists name s) = snd (list_volumes s)"
  by (simp add: volume_exists_def py_defs split: prod.splits sum.splits)

lemma pv_virsh_calls: "calls (snd (pv_virsh c s)) = calls s @ [c]"
  by (simp add: py_defs split: prod.splits)

lemma pv_virsh_self: "self (snd (pv_virsh c s)) = self s"
  by (simp add: py_defs split: prod.splits)

lemma pv_virsh_cases:
  "pv_virsh c s = (Inl CmdError, snd (pv_virsh c s)) \<or> (\<exists>out. pv_virsh c s = (Inr out, snd (pv_virsh c s)))"
  by (simp add: py_defs split: prod.splits option.splits)

section \<open>create_volume and delete_volume\<close>

text \<open>
  Claim C9. When the name already appears in \<open>list_volumes\<close>, \<open>create_volume\<close> returns
  \<open>False\<close>, and the only virsh function it has called is the \<open>vol_list\<close> of that check:
  \<open>vol_create_as\<close> is not called.
\<close>

theorem create_volume_existing:
  assumes "fst (volume_exists name s) = Inr True"
  shows "fst (create_volume name capability allocation frmt s) = Inr False
       \<and> calls (snd (create_volume name capability allocation frmt s))
           = calls s @ [virsh_vol_list (pool_name (self s))]"
proof -
  obtain s1 where v: "volume_exists name s = (Inr True, s1)"
    using assms by (cases "volume_exists name s") simp
  have "s1 = snd (list_volumes s)"
    using v volume_exists_snd[of name s] by simp
  then have c: "calls s1 = calls s @ [virsh_vol_list (pool_name (self s))]"
    by (simp add: list_volumes_calls)
  show ?thesis
    using v c by (simp add: create_volume_def py_bind_def py_return_def LOG_def)
qed

theorem create_volume_existing_witness:
  "fst (volume_exists ''vol1'' (pv_example [Some vol_table])) = Inr True
   \<and> fst (create_volume ''vol1'' ''1G'' None None (pv_example [Some vol_table])) = Inr False
   \<and> calls (snd (create_volume ''vol1'' ''1G'' None None (pv_example [Some vol_table])))
       = [virsh_vol_list ''p'']"
proof -
  have h: "fst (volume_exists ''vol1'' (pv_example [Some vol_table])) = Inr True"
    by code_simp
  show ?thesis
    using h create_volume_existing[OF h, of "''1G''" None None]
    by (simp add: pv_example_def)
qed

text \<open>
  Claim C8. When the name does not appear in \<open>list_volumes\<close>, \<open>delete_volume\<close> returns
  \<open>True\<close>, and when it has returned the only virsh function called is \<open>vol_list\<close>.
  When the name appears, \<open>vol_delete\<close> is called next, and \<open>delete_volume\<close> returns
  \<open>True\<close> exactly when that call returned and the query made after it does not list
  the name. The calls and the daemon that \<open>delete_volume\<close> leaves behind are those of
  \<open>vol_list\<close>, \<open>vol_delete\<close> and, unless \<open>vol_delete\<close> raised, a second
  \<open>vol_list\<close>: whenever it returns \<open>True\<close> for a listed name, \<open>vol_delete\<close> has
  been invoked and the list queried again.
\<close>

theorem delete_volume_checks:
  fixes s :: "'w pv_state" and name :: string
  defines "s1 \<equiv> snd (volume_exists name s)"
  defines "del \<equiv> virsh_vol_delete name (pool_name (self s))"
  defines "s2 \<equiv> snd (pv_virsh del s1)"
  shows "(fst (volume_exists name s) = Inr False \<longrightarrow>
            fst (delete_volume name s) = Inr True
          \<and> calls (snd (delete_volume name s)) = calls s @ [virsh_vol_list (pool_name (self s))]
          \<and> world (snd (delete_volume name s)) = world s1)
       \<and> (fst (volume_exists name s) = Inr True \<longrightarrow>
            (fst (delete_volume name s) = Inr True \<longleftrightarrow>
               (\<exists>out. fst (pv_virsh del s1) = Inr out)
             \<and> fst (volume_exists name s2) = Inr False)
          \<and> calls s2 = calls s @ [virsh_vol_list (pool_name (self s)), del]
          \<and> calls (snd (delete_volume name s)) =
              calls s @ [virsh_vol_list (pool_name (self s)), del]
                @ (if fst (pv_virsh del s1) = Inl CmdError then []
                   else [virsh_vol_list (pool_name (self s))])
          \<and> world (snd (delete_volume name s)) =
              (if fst (pv_virsh del s1) = Inl CmdError then world s2
               else world (snd (volume_exists name s2)))
          \<and> (fst (delete_volume name s) = Inr True \<longrightarrow>
                calls (snd (delete_volume name s)) =
                  calls s @ [virsh_vol_list (pool_name (self s)), del,
                             virsh_vol_list (pool_name (self s))]))"
proof (intro conjI impI)
  assume "fst (volume_exists name s) = Inr False"
  then have v: "volume_exists name s = (Inr False, s1)"
    by (simp add: s1_def prod_eq_iff)
  show "fst (delete_volume name s) = Inr True"
    using v by (simp add: delete_volume_def py_bind_def py_return_def LOG_def)
  show "calls (snd (delete_volume name s)) = calls s @ [virsh_vol_list (pool_name (self s))]"
    using v by (simp add: delete_volume_def py_bind_def py_return_def LOG_def s1_def
        volume_exists_snd list_volumes_calls)
  show "world (snd (delete_volume name s)) = world s1"
    using v by (simp add: delete_volume_def py_bind_def py_return_def LOG_def)
next
  assume "fst (volume_exists name s) = Inr True"
  then have v: "volume_exists name s = (Inr True, s1)"
    by (simp add: s1_def prod_eq_iff)
  have self1: "self s1 = self s"
    by (simp add: s1_def volume_exists_snd list_volumes_self)
  have self2: "self s2 = self s"
    using self1 by (simp add: s2_def pv_virsh_self)
  have c2: "calls s2 = calls s @ [virsh_vol_list (pool_name (self s)), del]"
    by (simp add: s2_def pv_virsh_calls s1_def volume_exists_snd list_volumes_calls)
  have c3: "calls (snd (volume_exists name s2)) =
              calls s @ [virsh_vol_list (pool_name (self s)), del, virsh_vol_list (pool_name (self s))]"
    by (simp add: volume_exists_snd list_volumes_calls self2 c2)
  have all: "(fst (delete_volume name s) = Inr True \<longleftrightarrow>
          (\<exists>out. fst (pv_virsh del s1) = Inr out) \<and> fst (volume_exists name s2) = Inr False)
      \<and> calls (snd (delete_volume name s)) =
              calls s @ [virsh_vol_list (pool_name (self s)), del]
                @ (if fst (pv_virsh del s1) = Inl CmdError then []
                   else [virsh_vol_list (pool_name (self s))])
      \<and> world (snd (delete_volume name s)) =
              (if fst (pv_virsh del s1) = Inl CmdError then world s2
               else world (snd (volume_exists name s2)))"
    using pv_virsh_cases[of del s1]
  proof
    assume "pv_virsh del s1 = (Inl CmdError, snd (pv_virsh del s1))"
    then have f: "pv_virsh del s1 = (Inl CmdError, s2)"
      by (simp add: s2_def)
    then have "delete_volume name s =
        (Inr False, s2\<lparr>log_records := log_records s2 @ [(ERROR, ''Delete volume failed:%s'')]\<rparr>)"
      using v self1
      by (simp add: delete_volume_def pv_try_command_def py_bind_def py_try_def py_return_def
          LOG_def del_def)
    then show ?thesis
      using f c2 by simp
  next
    assume "\<exists>out. pv_virsh del s1 = (Inr out, snd (pv_virsh del s1))"
    then obtain out where p: "pv_virsh del s1 = (Inr out, s2)"
      by (auto simp: s2_def)
    obtain r s3 where q: "volume_exists name s2 = (r, s3)"
      by (cases "volume_exists name s2")
    have "fst (delete_volume name s) = (case r of Inl e \<Rightarrow> Inl e | Inr b \<Rightarrow> Inr (\<not> b))
        \<and> calls (snd (delete_volume name s)) = calls s3
        \<and> world (snd (delete_volume name s)) = world s3"
      using v p q self1
      by (simp add: delete_volume_def pv_try_command_def py_bind_def py_try_def py_return_def
            LOG_def del_def split: sum.splits)
    then show ?thesis
      using p q c3 by (auto split: sum.splits)
  qed
  show "fst (delete_volume name s) = Inr True \<longleftrightarrow>
          (\<exists>out. fst (pv_virsh del s1) = Inr out) \<and> fst (volume_exists name s2) = Inr False"
    using all by blast
  show "calls s2 = calls s @ [virsh_vol_list (pool_name (self s)), del]"
    by (rule c2)
  show "calls (snd (delete_volume name s)) =
              calls s @ [virsh_vol_list (pool_name (self s)), del]
                @ (if fst (pv_virsh del s1) = Inl CmdError then []
                   else [virsh_vol_list (pool_name (self s))])"
    using all by blast
  show "world (snd (delete_volume name s)) =
              (if fst (pv_virsh del s1) = Inl CmdError then world s2
               else world (snd (volume_exists name s2)))"
    using all by blast
  show "calls (snd (delete_volume name s)) =
                  calls s @ [virsh_vol_list (pool_name (self s)), del,
                             virsh_vol_list (pool_name (self s))]"
    if "fst (delete_volume name s) = Inr True"
    using all that by auto
qed

theorem delete_volume_checks_witness:
  "fst (volume_exists ''vol1'' (pv_example [Some empty_table])) = Inr False
   \<and> fst (delete_volume ''vol1'' (pv_example [Some empty_table])) = Inr True
   \<and> calls (snd (delete_volume ''vol1'' (pv_example [Some empty_table]))) = [virsh_vol_list ''p'']
   \<and> fst (volume_exists ''vol1'' (pv_example [Some vol_table, Some [], Some empty_table])) = Inr True
   \<and> fst (delete_volume ''vol1'' (pv_example [Some vol_table, Some [], Some empty_table])) = Inr True
   \<and> calls (snd (delete_volume ''vol1'' (pv_example [Some vol_table, Some [], Some empty_table])))
       = [virsh_vol_list ''p'', virsh_vol_delete ''vol1'' ''p'', virsh_vol_list ''p'']
   \<and> fst (delete_volume ''vol1'' (pv_example [Some vol_table, Some [], Some vol_table])) \<noteq> Inr True
   \<and> fst (delete_volume ''vol1'' (pv_example [Some vol_table, None, Some empty_table])) \<noteq> Inr True
   \<and> calls (snd (delete_volume ''vol1'' (pv_example [Some vol_table, None, Some empty_table])))
       = [virsh_vol_list ''p'', virsh_vol_delete ''vol1'' ''p'']"
proof -
  have h1: "fst (volume_exists ''vol1'' (pv_example [Some empty_table])) = Inr False"
    by code_simp
  have h2: "fst (volume_exists ''vol1'' (pv_example [Some vol_table, Some [], Some empty_table])) = Inr True"
    by code_simp
  have h3: "fst (volume_exists ''vol1'' (pv_example [Some vol_table, Some [], Some vol_table])) = Inr True"
    by code_simp
  have h4: "fst (volume_exists ''vol1'' (pv_example [Some vol_table, None, Some empty_table])) = Inr True"
    by code_simp
  have e2: "fst (pv_virsh (virsh_vol_delete ''vol1'' ''p'')
               (snd (volume_exists ''vol1'' (pv_example [Some vol_table, Some [], Some empty_table])))) = Inr []
          \<and> fst (volume_exists ''vol1'' (snd (pv_virsh (virsh_vol_delete ''vol1'' ''p'')
               (snd (volume_exists ''vol1'' (pv_example [Some vol_table, Some [], Some empty_table])))))) = Inr False"
    by code_simp
  have e3: "fst (volume_exists ''vol1'' (snd (pv_virsh (virsh_vol_delete ''vol1'' ''p'')
               (snd (volume_exists ''vol1'' (pv_example [Some vol_table, Some [], Some vol_table])))))) = Inr True"
    by code_simp
  have e4: "fst (pv_virsh (virsh_vol_delete ''vol1'' ''p'')
               (snd (volume_exists ''vol1'' (pv_example [Some vol_table, None, Some empty_table])))) = Inl CmdError"
    by code_simp
  have p: "pool_name (self (pv_example r)) = ''p''" "calls (pv_example r) = []" for r
    by (simp_all add: pv_example_def)
  show ?thesis
    using h1 h2 h3 h4 e2 e3 e4
      delete_volume_checks[of "''vol1''" "pv_example [Some empty_table]"]
      delete_volume_checks[of "''vol1''" "pv_example [Some vol_table, Some [], Some empty_table]"]
      delete_volume_checks[of "''vol1''" "pv_example [Some vol_table, Some [], Some vol_table]"]
      delete_volume_checks[of "''vol1''" "pv_example [Some vol_table, None, Some empty_table]"]
    by (simp add: p)
qed



section \<open>pool_exists\<close>

text \<open>
  Claim C6. \<open>pool_exists\<close> returns \<open>True\<close> exactly when \<open>list_pools\<close> produces a dict
  that has the name as a key, and it returns \<open>False\<close>, raising nothing, when the
  \<open>pool_list\<close> command fails.
\<close>

theorem pool_exists_iff:
  "(fst (pool_exists name s) = Inr True \<longleftrightarrow>
      (\<exists>pools. fst (list_pools s) = Inr pools \<and> pools name \<noteq> None))
   \<and> (fst (command (StoragePool.virsh_instance (self s)) (virsh_pool_list ''--all'') (world s)) = None
        \<longrightarrow> fst (pool_exists name s) = Inr False)"
  by (cases "list_pools s")
     (auto simp: pool_exists_def list_pools_def py_defs
        split: sum.splits prod.splits option.splits if_splits)

theorem pool_exists_iff_witness:
  "fst (command scripted_virsh (virsh_pool_list ''--all'') [None]) = None
   \<and> fst (pool_exists ''default'' (sp_example [None])) = Inr False
   \<and> fst (pool_exists ''default'' (sp_example [Some pool_table])) = Inr True
   \<and> fst (pool_exists ''State'' (sp_example [Some pool_table])) \<noteq> Inr True"
proof -
  have h: "fst (command (StoragePool.virsh_instance (self (sp_example [None])))
             (virsh_pool_list ''--all'') (world (sp_example [None]))) = None"
    by (simp add: sp_example_def scripted_virsh_def)
  have l: "case fst (list_pools (sp_example [Some pool_table])) of
             Inl e \<Rightarrow> False
           | Inr pools \<Rightarrow> pools ''default'' \<noteq> None \<and> pools ''State'' = None"
    by code_simp
  show ?thesis
    using h l pool_exists_iff[of "''default''" "sp_example [None]"]
      pool_exists_iff[of "''default''" "sp_example [Some pool_table]"]
      pool_exists_iff[of "''State''" "sp_example [Some pool_table]"]
    by (auto simp: sp_example_def scripted_virsh_def split: sum.splits)
qed

section \<open>pool_info\<close>

lemma split_from_char_Nil: "split_from [c] cur [] = [cur]"
  by (subst split_from.simps) simp

lemma split_from_char_Cons:
  "split_from [c] cur (x # xs) =
     (if x = c then cur # split_from [c] [] xs else split_from [c] (cur @ [x]) xs)"
  by (subst split_from.simps) auto

lemma split_from_char_length: "length (split_from [c] cur s) = Suc (count_list s c)"
  by (induction s arbitrary: cur) (simp_all add: split_from_char_Nil split_from_char_Cons)

lemma split_from_char_notin: "c \<notin> set s \<Longrightarrow> split_from [c] cur s = [cur @ s]"
  by (induction s arbitrary: cur) (auto simp: split_from_char_Nil split_from_char_Cons)

lemma split_from_char_in:
  "c \<in> set s \<Longrightarrow> split_from [c] cur s =
     (cur @ takeWhile (\<lambda>x. x \<noteq> c) s) # split_from [c] [] (drop 1 (dropWhile (\<lambda>x. x \<noteq> c) s))"
proof (induction s arbitrary: cur)
  case Nil
  then show ?case by simp
next
  case (Cons x xs)
  show ?case
  proof (cases "x = c")
    case True
    then show ?thesis by (simp add: split_from_char_Cons)
  next
    case False
    with Cons.prems have "c \<in> set xs" by simp
    from Cons.IH[OF this, of "cur @ [x]"] False show ?thesis
      by (simp add: split_from_char_Cons)
  qed
qed

lemma count_list_after_first:
  "c \<in> set s \<Longrightarrow> count_list s c = Suc (count_list (drop 1 (dropWhile (\<lambda>x. x \<noteq> c) s)) c)"
  by (induction s) auto

lemma split_from_one_colon:
  assumes "count_list s c = 1"
  shows "split_from [c] [] s = [takeWhile (\<lambda>x. x \<noteq> c) s, drop 1 (dropWhile (\<lambda>x. x \<noteq> c) s)]"
proof -
  have m: "c \<in> set s"
    using assms count_list_0_iff[of s c] by auto
  then have "count_list (drop 1 (dropWhile (\<lambda>x. x \<noteq> c) s)) c = 0"
    using assms count_list_after_first[of c s] by simp
  then have "c \<notin> set (drop 1 (dropWhile (\<lambda>x. x \<noteq> c) s))"
    by (simp add: count_list_0_iff)
  then show ?thesis
    using split_from_char_in[OF m, of "[]"] by (simp add: split_from_char_notin)
qed

lemma pool_info_line_spec:
  "pool_info_line line info = info ++ map_of (spec_pool_info_entry line)"
proof (cases "count_list line CHR '':'' = 1")
  case True
  then show ?thesis
    by (simp add: pool_info_line_def spec_pool_info_entry_def split_from_one_colon map_add_def
        fun_eq_iff)
next
  case False
  then show ?thesis
    by (simp add: pool_info_line_def spec_pool_info_entry_def split_from_char_length)
qed

lemma rev_spec_pool_info_entry: "rev (spec_pool_info_entry line) = spec_pool_info_entry line"
  by (simp add: spec_pool_info_entry_def)

lemma fold_pool_info_line:
  "fold pool_info_line lines info = info ++ map_of (rev (concat (map spec_pool_info_entry lines)))"
  by (induction lines arbitrary: info) (simp_all add: pool_info_line_spec rev_spec_pool_info_entry)

lemma pool_info_parse_spec: "pool_info_parse stdout_text = spec_pool_info stdout_text"
  by (simp add: pool_info_parse_def spec_pool_info_def fold_pool_info_line)

text \<open>
  Claim C3. \<open>pool_info\<close> returns the empty dict when the \<open>pool_info\<close> command fails.
  Otherwise it returns the dict of the specification: an entry for each line of the output
  that has exactly one colon (that is, that \<open>split(":")\<close> cuts into exactly two parts),
  from the stripped text before the colon to the stripped text after it, and nothing for
  any other line.
\<close>

theorem pool_info_dict:
  "(fst (command (StoragePool.virsh_instance (self s)) (virsh_pool_info name) (world s)) = None
      \<longrightarrow> fst (pool_info name s) = Inr Map.empty)
   \<and> (\<forall>stdout_text.
        fst (command (StoragePool.virsh_instance (self s)) (virsh_pool_info name) (world s))
          = Some stdout_text
      \<longrightarrow> fst (pool_info name s) = Inr (spec_pool_info stdout_text))"
  by (auto simp: pool_info_def py_defs pool_info_parse_spec split: prod.splits option.splits)

theorem pool_info_dict_witness:
  "fst (pool_info ''default'' (sp_example [None])) = Inr Map.empty
   \<and> (\<exists>info. fst (pool_info ''default'' (sp_example [Some info_text])) = Inr info
         \<and> info ''Name'' = Some ''default'' \<and> info ''UUID'' = Some ''0a1b''
         \<and> info ''Capacity'' = None \<and> info ''State  running'' = None)"
proof -
  have h1: "fst (command (StoragePool.virsh_instance (self (sp_example [None])))
              (virsh_pool_info ''default'') (world (sp_example [None]))) = None"
    by (simp add: sp_example_def scripted_virsh_def)
  have h2: "fst (command (StoragePool.virsh_instance (self (sp_example [Some info_text])))
              (virsh_pool_info ''default'') (world (sp_example [Some info_text]))) = Some info_text"
    by (simp add: sp_example_def scripted_virsh_def)
  have v: "spec_pool_info info_text ''Name'' = Some ''default''"
    "spec_pool_info info_text ''UUID'' = Some ''0a1b''"
    "spec_pool_info info_text ''Capacity'' = None"
    "spec_pool_info info_text ''State  running'' = None"
    by code_simp+
  show ?thesis
    using h1 h2 v pool_info_dict[of "sp_example [None]" "''default''"]
      pool_info_dict[of "sp_example [Some info_text]" "''default''"]
    by simp
qed

section \<open>list_pools\<close>

lemma upd_map_add: "m(k \<mapsto> v) ++ m' = m ++ ([k \<mapsto> v] ++ m')"
  by (simp add: map_add_assoc)

lemma spec_pool_details_Cons:
  "spec_pool_details (c # cs) (v # vs) =
     (if re_match_name c then spec_pool_details cs vs else [c \<mapsto> v] ++ spec_pool_details cs vs)"
  by (simp add: spec_pool_details_def)

lemma spec_pool_name_Cons:
  "spec_pool_name (c # cs) (v # vs) =
     (case spec_pool_name cs vs of
        Some n \<Rightarrow> Some n
      | None \<Rightarrow> if re_match_name c then Some v else None)"
  by (simp add: spec_pool_name_def split: list.splits)

lemma head_loop_spec:
  "k + length columns \<le> length details \<Longrightarrow>
   head_loop (enumerate k columns) details pn details_dict =
     Inr (case spec_pool_name columns (drop k details) of None \<Rightarrow> pn | Some n \<Rightarrow> Some n,
          details_dict ++ spec_pool_details columns (drop k details))"
proof (induction columns arbitrary: k pn details_dict)
  case Nil
  then show ?case by (simp add: spec_pool_name_def spec_pool_details_def)
next
  case (Cons c cs)
  then have k: "k < length details" and rest: "Suc k + length cs \<le> length details"
    by simp_all
  have d: "drop k details = details ! k # drop (Suc k) details"
    using k by (simp add: Cons_nth_drop_Suc)
  show ?case
  proof (cases "re_match_name c")
    case True
    then show ?thesis
      using Cons.IH[OF rest, of "Some (details ! k)" details_dict] k
      by (simp add: getitem_def d spec_pool_name_Cons spec_pool_details_Cons split: option.splits)
  next
    case False
    have m: "details_dict(c \<mapsto> details ! k) ++ spec_pool_details cs (drop (Suc k) details)
               = details_dict ++ spec_pool_details (c # cs) (drop k details)"
      using False by (simp only: d spec_pool_details_Cons if_False upd_map_add[symmetric])
    have n: "spec_pool_name (c # cs) (drop k details) = spec_pool_name cs (drop (Suc k) details)"
      using False by (simp add: d spec_pool_name_Cons split: option.splits)
    have "head_loop (enumerate k (c # cs)) details pn details_dict =
            head_loop (enumerate (Suc k) cs) details pn (details_dict(c \<mapsto> details ! k))"
      using False k by (simp add: getitem_def)
    then show ?thesis
      using Cons.IH[OF rest, of pn "details_dict(c \<mapsto> details ! k)"]
      by (simp only: m n)
  qed
qed

lemma spec_pool_name_Some:
  "list_ex re_match_name columns \<Longrightarrow> length columns \<le> length cells \<Longrightarrow>
   \<exists>n. spec_pool_name columns cells = Some n"
proof -
  assume a: "list_ex re_match_name columns" and l: "length columns \<le> length cells"
  then obtain c where c: "c \<in> set columns" "re_match_name c"
    by (auto simp: list_ex_iff)
  then obtain i where i: "i < length columns" "columns ! i = c"
    by (auto simp: in_set_conv_nth)
  then have "(c, cells ! i) \<in> set (zip columns cells)"
    using l by (auto simp: set_zip)
  then have "filter (\<lambda>(column, v). re_match_name column) (zip columns cells) \<noteq> []"
    using c(2) by (auto simp: filter_empty_conv)
  then show ?thesis
    by (auto simp: spec_pool_name_def split: list.splits)
qed

lemma lines_loop_spec:
  assumes "list_ex re_match_name (split_ws head)"
    and "list_all (\<lambda>line. length (split_ws head) \<le> length (split_ws line)) lines"
  shows "lines_loop head lines pn pools =
           Inr (pools ++ map_of (rev (concat (map (spec_pool_entry (split_ws head)) lines))))"
  using assms(2)
proof (induction lines arbitrary: pn pools)
  case Nil
  then show ?case by simp
next
  case (Cons line lines)
  then have len: "length (split_ws head) \<le> length (split_ws line)"
    and rest: "list_all (\<lambda>line. length (split_ws head) \<le> length (split_ws line)) lines"
    by simp_all
  obtain n where n: "spec_pool_name (split_ws head) (split_ws line) = Some n"
    using spec_pool_name_Some[OF assms(1) len] by blast
  have h: "head_loop (enumerate 0 (split_ws head)) (split_ws line) pn Map.empty =
             Inr (Some n, spec_pool_details (split_ws head) (split_ws line))"
    using head_loop_spec[of 0 "split_ws head" "split_ws line" pn Map.empty] len n
    by simp
  have e: "spec_pool_entry (split_ws head) line =
             [(n, spec_pool_details (split_ws head) (split_ws line))]"
    by (simp add: spec_pool_entry_def n)
  have m: "pools(n \<mapsto> spec_pool_details (split_ws head) (split_ws line))
             ++ map_of (rev (concat (map (spec_pool_entry (split_ws head)) lines)))
           = pools ++ map_of (rev (concat (map (spec_pool_entry (split_ws head)) (line # lines))))"
    by (simp add: e)
  have "lines_loop head (line # lines) pn pools =
          lines_loop head lines (Some n)
            (pools(n \<mapsto> spec_pool_details (split_ws head) (split_ws line)))"
    by (simp add: h)
  then show ?case
    using Cons.IH[OF rest, of "Some n" "pools(n \<mapsto> spec_pool_details (split_ws head) (split_ws line))"]
    by (simp only: m)
qed

lemma list_pools_parse_spec:
  assumes "well_formed_table stdout_text"
  shows "list_pools_parse stdout_text = Inr (spec_list_pools stdout_text)"
  using assms lines_loop_spec[of "hd (splitlines (strip stdout_text))"
      "drop 2 (splitlines (strip stdout_text))" None Map.empty]
  by (simp add: list_pools_parse_def spec_list_pools_def well_formed_table_def Let_def)

lemma list_pools_parse_short:
  "length (splitlines (strip stdout_text)) \<le> 2 \<Longrightarrow> list_pools_parse stdout_text = Inr Map.empty"
  by (simp add: list_pools_parse_def Let_def)

text \<open>
  Claim C1, as stated, fails: the output \<open>short_row_table\<close> has three lines after
  stripping, and \<open>list_pools\<close> returns no entry for the third one, it raises
  \<open>IndexError\<close> at \<open>details[index]\<close>.
\<close>

theorem list_pools_short_row_counterexample:
  "length (splitlines (strip short_row_table)) = 3
   \<and> fst (list_pools (sp_example [Some short_row_table])) = Inl IndexError"
proof -
  have "length (splitlines (strip short_row_table)) = 3"
    by code_simp
  moreover have "case fst (list_pools (sp_example [Some short_row_table])) of
                   Inl e \<Rightarrow> e = IndexError
                 | Inr pools \<Rightarrow> False"
    by code_simp
  ultimately show ?thesis
    by (simp split: sum.splits)
qed

text \<open>
  Claim C1, amended. When the stripped output has two lines or fewer, \<open>list_pools\<close>
  returns the empty dict. When it has more, the header has a column matching
  \<open>[N|n]ame\<close> and every line after the second has at least as many fields as the header
  has columns, \<open>list_pools\<close> returns the dict of the specification: the first line is the
  header, the second is skipped, every further line gives the entry from its field under
  the matching column to the dict of its fields under the other columns.
\<close>

theorem list_pools_table:
  assumes "fst (command (StoragePool.virsh_instance (self s)) (virsh_pool_list ''--all'') (world s))
             = Some stdout_text"
  shows "(length (splitlines (strip stdout_text)) \<le> 2 \<longrightarrow> fst (list_pools s) = Inr Map.empty)
       \<and> (2 < length (splitlines (strip stdout_text)) \<and> well_formed_table stdout_text \<longrightarrow>
            fst (list_pools s) = Inr (spec_list_pools stdout_text))"
proof -
  have "fst (list_pools s) = list_pools_parse stdout_text"
    using assms
    by (cases "command (StoragePool.virsh_instance (self s)) (virsh_pool_list ''--all'') (world s)")
       (simp add: list_pools_def py_defs)
  then show ?thesis
    by (simp add: list_pools_parse_short list_pools_parse_spec)
qed

theorem list_pools_table_witness:
  "well_formed_table pool_table \<and> 2 < length (splitlines (strip pool_table))
   \<and> (\<exists>pools default_details images_details.
         fst (list_pools (sp_example [Some pool_table])) = Inr pools
       \<and> pools ''default'' = Some default_details \<and> pools ''images'' = Some images_details
       \<and> pools ''Name'' = None
       \<and> default_details ''State'' = Some ''active'' \<and> default_details ''Autostart'' = Some ''yes''
       \<and> default_details ''Name'' = None
       \<and> images_details ''State'' = Some ''inactive'' \<and> images_details ''Autostart'' = Some ''no'')
   \<and> length (splitlines (strip empty_table)) \<le> 2
   \<and> fst (list_pools (sp_example [Some empty_table])) = Inr Map.empty"
proof -
  have h1: "fst (command (StoragePool.virsh_instance (self (sp_example [Some pool_table])))
              (virsh_pool_list ''--all'') (world (sp_example [Some pool_table]))) = Some pool_table"
    by (simp add: sp_example_def scripted_virsh_def)
  have h2: "fst (command (StoragePool.virsh_instance (self (sp_example [Some empty_table])))
              (virsh_pool_list ''--all'') (world (sp_example [Some empty_table]))) = Some empty_table"
    by (simp add: sp_example_def scripted_virsh_def)
  have w: "well_formed_table pool_table" "2 < length (splitlines (strip pool_table))"
    "length (splitlines (strip empty_table)) \<le> 2"
    by code_simp+
  have v: "case spec_list_pools pool_table ''default'' of
             None \<Rightarrow> False
           | Some d \<Rightarrow> d ''State'' = Some ''active'' \<and> d ''Autostart'' = Some ''yes''
                       \<and> d ''Name'' = None"
    "case spec_list_pools pool_table ''images'' of
             None \<Rightarrow> False
           | Some d \<Rightarrow> d ''State'' = Some ''inactive'' \<and> d ''Autostart'' = Some ''no''"
    "spec_list_pools pool_table ''Name'' = None"
    by code_simp+
  show ?thesis
    using w v list_pools_table[OF h1] list_pools_table[OF h2]
    by (auto split: option.splits)
qed

section \<open>volume_info\<close>

lemma split_from_no_occurrence:
  "sep \<noteq> [] \<Longrightarrow> \<not> occurs_in sep s \<Longrightarrow> split_from sep cur s = [cur @ s]"
proof (induction s arbitrary: cur)
  case Nil
  then show ?case by (subst split_from.simps) simp
next
  case (Cons c cs)
  then have "take (length sep) (c # cs) \<noteq> sep" and "\<not> occurs_in sep cs"
    by simp_all
  then show ?case
    using Cons.IH[of "cur @ [c]"] Cons.prems(1)
    by (subst split_from.simps) simp
qed

lemma split_from_at_separator:
  "sep \<noteq> [] \<Longrightarrow> split_from sep cur (sep @ rest) = cur # split_from sep [] rest"
  by (subst split_from.simps) simp

lemma occurs_in_shorter: "length s < length sep \<Longrightarrow> \<not> occurs_in sep s"
proof (induction s)
  case Nil
  then show ?case by auto
next
  case (Cons c cs)
  then have "length (take (length sep) (c # cs)) < length sep"
    by simp
  then have "take (length sep) (c # cs) \<noteq> sep"
    by auto
  then show ?case using Cons by simp
qed

lemma split_colon_first:
  "getitem (split_from '':'' [] line) 0 = Inr (takeWhile (\<lambda>c. c \<noteq> CHR '':'') line)"
proof (cases "CHR '':'' \<in> set line")
  case True
  then show ?thesis
    by (simp add: getitem_def split_from_char_in)
next
  case False
  then have t: "takeWhile (\<lambda>c. c \<noteq> CHR '':'') line = line"
    by (auto simp: takeWhile_eq_all_conv)
  show ?thesis
    using False by (simp add: getitem_def split_from_char_notin t)
qed

lemma line_at_first_colon:
  assumes "CHR '':'' \<in> set line"
  shows "line = (takeWhile (\<lambda>c. c \<noteq> CHR '':'') line @ '':'')
                  @ drop 1 (dropWhile (\<lambda>c. c \<noteq> CHR '':'') line)"
proof -
  have "dropWhile (\<lambda>c. c \<noteq> CHR '':'') line \<noteq> []"
    using assms by auto
  moreover have "hd (dropWhile (\<lambda>c. c \<noteq> CHR '':'') line) = CHR '':''"
    using assms hd_dropWhile[of "\<lambda>c. c \<noteq> CHR '':''" line] by auto
  ultimately have "dropWhile (\<lambda>c. c \<noteq> CHR '':'') line
                     = CHR '':'' # drop 1 (dropWhile (\<lambda>c. c \<noteq> CHR '':'') line)"
    by (cases "dropWhile (\<lambda>c. c \<noteq> CHR '':'') line") simp_all
  then show ?thesis
    using takeWhile_dropWhile_id[of "\<lambda>c. c \<noteq> CHR '':''" line] by simp
qed

lemma split_from_nonempty: "split_from sep cur s \<noteq> []"
proof (induction sep cur s rule: split_from.induct)
  case (1 sep cur s)
  then show ?case
    by (subst split_from.simps) (auto split: list.splits)
qed

lemma volume_info_line_key:
  "\<exists>v. volume_info_line line info = Inr (info(takeWhile (\<lambda>c. c \<noteq> CHR '':'') line \<mapsto> v))"
  by (simp add: volume_info_line_def split_colon_first split_sep_def getitem_last_def
      split_from_nonempty) blast

lemma split_from_find_None:
  "sep \<noteq> [] \<Longrightarrow> find_first sep s = None \<Longrightarrow> split_from sep cur s = [cur @ s]"
proof (induction s arbitrary: cur)
  case Nil
  then show ?case by (subst split_from.simps) simp
next
  case (Cons c cs)
  then have t: "take (length sep) (c # cs) \<noteq> sep" and r: "find_first sep cs = None"
    by (auto split: if_splits)
  have "split_from sep cur (c # cs) = split_from sep (cur @ [c]) cs"
    by (subst split_from.simps) (simp only: t simp_thms if_False list.case)
  then show ?case
    using Cons.IH[OF Cons.prems(1) r, of "cur @ [c]"] by simp
qed

lemma split_from_find_Some:
  "sep \<noteq> [] \<Longrightarrow> find_first sep s = Some i \<Longrightarrow>
   split_from sep cur s = (cur @ take i s) # split_from sep [] (drop (i + length sep) s)"
proof (induction s arbitrary: cur i)
  case Nil
  then show ?case by simp
next
  case (Cons c cs)
  show ?case
  proof (cases "take (length sep) (c # cs) = sep")
    case True
    then have "i = 0"
      using Cons.prems(2) by simp
    moreover have "split_from sep cur (c # cs) = cur # split_from sep [] (drop (length sep) (c # cs))"
      by (subst split_from.simps) (simp only: True Cons.prems(1) simp_thms if_True not_False_eq_True)
    ultimately show ?thesis by simp
  next
    case False
    then obtain k where k: "find_first sep cs = Some k" "i = Suc k"
      using Cons.prems(2) by auto
    have "split_from sep cur (c # cs) = split_from sep (cur @ [c]) cs"
      by (subst split_from.simps) (simp only: False simp_thms if_False list.case)
    then show ?thesis
      using Cons.IH[OF Cons.prems(1) k(1), of "cur @ [c]"] k(2) by simp
  qed
qed

lemma last_split_from:
  "sep \<noteq> [] \<Longrightarrow> last (split_from sep [] s) = after_last_occurrence sep s"
proof (induction sep s rule: after_last_occurrence.induct)
  case (1 sep s)
  show ?case
  proof (cases "find_first sep s")
    case None
    then have "after_last_occurrence sep s = s"
      using "1.prems" by (subst after_last_occurrence.simps) simp
    then show ?thesis
      using split_from_find_None[OF "1.prems" None, of "[]"] by simp
  next
    case (Some i)
    then have a: "after_last_occurrence sep s = after_last_occurrence sep (drop (i + length sep) s)"
      using "1.prems" by (subst after_last_occurrence.simps) simp
    have "last (split_from sep [] s) = last (split_from sep [] (drop (i + length sep) s))"
      using split_from_find_Some[OF "1.prems" Some, of "[]"] by (simp add: split_from_nonempty)
    then show ?thesis
      using "1.IH"[OF "1.prems" Some "1.prems"] a by simp
  qed
qed

lemma volume_info_line_last:
  "volume_info_line line info =
     Inr (info(takeWhile (\<lambda>c. c \<noteq> CHR '':'') line \<mapsto>
            strip (after_last_occurrence (takeWhile (\<lambda>c. c \<noteq> CHR '':'') line @ '':'') line)))"
  by (simp add: volume_info_line_def split_colon_first split_sep_def getitem_last_def
      split_from_nonempty last_split_from)

lemma volume_info_stdout:
  assumes "fst (command (PoolVolume.virsh_instance (self s)) (virsh_vol_info name (pool_name (self s)))
             (world s)) = Some stdout_text"
  shows "fst (volume_info name s) = volume_info_loop (splitlines (strip stdout_text)) Map.empty"
  using assms
  by (cases "command (PoolVolume.virsh_instance (self s)) (virsh_vol_info name (pool_name (self s)))
        (world s)")
     (simp add: volume_info_def volume_info_parse_def py_defs)

text \<open>
  Claim C10, as stated, fails: in the line \<open>a:b a:c\<close> the attribute is \<open>a\<close> and the text
  that follows the first \<open>a:\<close> is \<open>b a:c\<close>, but \<open>volume_info\<close> stores \<open>c\<close>, the text
  after the last \<open>a:\<close>, because it takes the last piece of \<open>line.split("a:")\<close>.
\<close>

theorem volume_info_repeated_attr_counterexample:
  "volume_info_line ''a:b a:c'' Map.empty = Inr [''a'' \<mapsto> ''c'']
   \<and> strip (drop (length ''a:'') ''a:b a:c'') = ''b a:c''
   \<and> fst (volume_info ''vol1'' (pv_example [Some repeated_attr_text])) = Inr [''a'' \<mapsto> ''c'']"
proof -
  have a: "getitem (split_from '':'' [] ''a:b a:c'') 0 = Inr ''a''"
    by code_simp
  have p: "split_from ''a:'' [] ''a:b a:c'' = [[], ''b '', ''c'']"
    by code_simp
  have c: "strip ''c'' = ''c''" "strip ''b a:c'' = ''b a:c''"
    by code_simp+
  have l: "splitlines (strip repeated_attr_text) = [''a:b a:c'']"
    by code_simp
  have v: "volume_info_line ''a:b a:c'' Map.empty = Inr [''a'' \<mapsto> ''c'']"
    using p by (simp add: volume_info_line_def a split_sep_def getitem_last_def c)
  have h: "fst (command (PoolVolume.virsh_instance (self (pv_example [Some repeated_attr_text])))
             (virsh_vol_info ''vol1'' (pool_name (self (pv_example [Some repeated_attr_text]))))
             (world (pv_example [Some repeated_attr_text]))) = Some repeated_attr_text"
    by (simp add: pv_example_def scripted_virsh_def)
  show ?thesis
    using volume_info_stdout[OF h] by (simp add: l v c)
qed

text \<open>
  Claim C10, amended. For every line, \<open>volume_info\<close> maps the text before the first
  colon of the line (the whole line when it has no colon) to the stripped text that
  follows the last occurrence of that attribute name followed by a colon, the occurrences
  being found from left to right without overlap, and raises nothing. When the line has
  a colon and the attribute name followed by a colon does not occur again in the text
  after that first colon, the value is that text, stripped, in full: further colons are
  kept. A line without colon is mapped to its own stripped text. \<open>pool_info\<close>, by
  contrast, stores nothing for a line with more than one colon.
\<close>

theorem volume_info_line_value:
  fixes line :: string
  defines "attr \<equiv> takeWhile (\<lambda>c. c \<noteq> CHR '':'') line"
  defines "rest \<equiv> drop 1 (dropWhile (\<lambda>c. c \<noteq> CHR '':'') line)"
  shows "volume_info_line line info
           = Inr (info(attr \<mapsto> strip (after_last_occurrence (attr @ '':'') line)))
       \<and> (CHR '':'' \<in> set line \<and> \<not> occurs_in (attr @ '':'') rest \<longrightarrow>
            volume_info_line line info = Inr (info(attr \<mapsto> strip rest)))
       \<and> (CHR '':'' \<notin> set line \<longrightarrow>
            volume_info_line line info = Inr (info(line \<mapsto> strip line)))
       \<and> (1 < count_list line CHR '':'' \<longrightarrow> pool_info_line line info = info)"
proof (intro conjI impI)
  show "volume_info_line line info
          = Inr (info(attr \<mapsto> strip (after_last_occurrence (attr @ '':'') line)))"
    unfolding attr_def by (rule volume_info_line_last)
next
  assume a: "CHR '':'' \<in> set line \<and> \<not> occurs_in (attr @ '':'') rest"
  then have l: "line = (attr @ '':'') @ rest"
    unfolding attr_def rest_def using line_at_first_colon by blast
  have "split_from (attr @ '':'') [] line = [[], rest]"
    using a split_from_at_separator[of "attr @ '':''" "[]" rest]
      split_from_no_occurrence[of "attr @ '':''" rest "[]"] l
    by simp
  then show "volume_info_line line info = Inr (info(attr \<mapsto> strip rest))"
    by (simp add: volume_info_line_def split_colon_first split_sep_def getitem_last_def attr_def)
next
  assume a: "CHR '':'' \<notin> set line"
  then have t: "takeWhile (\<lambda>c. c \<noteq> CHR '':'') line = line"
    by (auto simp: takeWhile_eq_all_conv)
  have "split_from (line @ '':'') [] line = [line]"
    using split_from_no_occurrence[of "line @ '':''" line "[]"] occurs_in_shorter[of line "line @ '':''"]
    by simp
  then show "volume_info_line line info = Inr (info(line \<mapsto> strip line))"
    by (simp add: volume_info_line_def split_colon_first split_sep_def getitem_last_def t)
next
  assume "1 < count_list line CHR '':''"
  then show "pool_info_line line info = info"
    by (simp add: pool_info_line_def split_from_char_length)
qed

theorem volume_info_line_value_witness:
  "CHR '':'' \<in> set ''Path:  /dev/ip-10.0.0.1:3260-lun-1''
   \<and> \<not> occurs_in ''Path:'' ''  /dev/ip-10.0.0.1:3260-lun-1''
   \<and> 1 < count_list ''Path:  /dev/ip-10.0.0.1:3260-lun-1'' CHR '':''
   \<and> volume_info_line ''Path:  /dev/ip-10.0.0.1:3260-lun-1'' Map.empty
        = Inr [''Path'' \<mapsto> ''/dev/ip-10.0.0.1:3260-lun-1'']
   \<and> pool_info_line ''Path:  /dev/ip-10.0.0.1:3260-lun-1'' Map.empty = Map.empty
   \<and> CHR '':'' \<notin> set ''Type file''
   \<and> volume_info_line ''Type file'' Map.empty = Inr [''Type file'' \<mapsto> ''Type file'']
   \<and> volume_info_line thrice_attr_line Map.empty = Inr [''a'' \<mapsto> ''d'']"
proof -
  have t: "takeWhile (\<lambda>c. c \<noteq> CHR '':'') ''Path:  /dev/ip-10.0.0.1:3260-lun-1'' = ''Path''"
    "drop 1 (dropWhile (\<lambda>c. c \<noteq> CHR '':'') ''Path:  /dev/ip-10.0.0.1:3260-lun-1'')
       = ''  /dev/ip-10.0.0.1:3260-lun-1''"
    by simp_all
  have h: "CHR '':'' \<in> set ''Path:  /dev/ip-10.0.0.1:3260-lun-1''"
    "\<not> occurs_in ''Path:'' ''  /dev/ip-10.0.0.1:3260-lun-1''"
    "1 < count_list ''Path:  /dev/ip-10.0.0.1:3260-lun-1'' CHR '':''"
    "CHR '':'' \<notin> set ''Type file''"
    by code_simp+
  have s: "strip ''  /dev/ip-10.0.0.1:3260-lun-1'' = ''/dev/ip-10.0.0.1:3260-lun-1''"
    "strip ''Type file'' = ''Type file''"
    by code_simp+
  have a: "takeWhile (\<lambda>c. c \<noteq> CHR '':'') thrice_attr_line = ''a''"
    "strip (after_last_occurrence (''a'' @ '':'') thrice_attr_line) = ''d''"
    by code_simp+
  have d: "volume_info_line thrice_attr_line Map.empty = Inr [''a'' \<mapsto> ''d'']"
    using volume_info_line_value[of thrice_attr_line Map.empty] by (simp only: a)
  have "CHR '':'' \<in> set ''Path:  /dev/ip-10.0.0.1:3260-lun-1''
   \<and> \<not> occurs_in ''Path:'' ''  /dev/ip-10.0.0.1:3260-lun-1''
   \<and> 1 < count_list ''Path:  /dev/ip-10.0.0.1:3260-lun-1'' CHR '':''
   \<and> volume_info_line ''Path:  /dev/ip-10.0.0.1:3260-lun-1'' Map.empty
        = Inr [''Path'' \<mapsto> ''/dev/ip-10.0.0.1:3260-lun-1'']
   \<and> pool_info_line ''Path:  /dev/ip-10.0.0.1:3260-lun-1'' Map.empty = Map.empty
   \<and> CHR '':'' \<notin> set ''Type file''
   \<and> volume_info_line ''Type file'' Map.empty = Inr [''Type file'' \<mapsto> ''Type file'']"
    using h volume_info_line_value[of "''Path:  /dev/ip-10.0.0.1:3260-lun-1''" Map.empty,
        THEN conjunct2]
      volume_info_line_value[of "''Type file''" Map.empty, THEN conjunct2]
    by (simp only: t s) simp
  then show ?thesis
    using d by simp
qed

section \<open>list_volumes\<close>

text \<open>
  Claim C2 says that a line without a match of the path pattern gives an entry with the
  empty string as value. The method sets \<open>path = ""\<close> for such a line (the branch
  commented \<open>Do not find a path\<close>), and then calls \<open>line.split(path)\<close>, which raises
  \<open>ValueError\<close> for the empty separator: \<open>list_volumes\<close> returns no dict at all.
\<close>

theorem list_volumes_no_path_raises:
  "findall_path_first '' vol1   vol1.img'' = None
   \<and> list_volumes_line '' vol1   vol1.img'' Map.empty = Inl ValueError
   \<and> fst (list_volumes (pv_example [Some no_path_table])) = Inl ValueError"
proof -
  have f: "findall_path_first '' vol1   vol1.img'' = None"
    by code_simp
  have l: "list_volumes_line '' vol1   vol1.img'' Map.empty = Inl ValueError"
    unfolding list_volumes_line_def f by (simp add: split_sep_def)
  have "case fst (list_volumes (pv_example [Some no_path_table])) of
          Inl e \<Rightarrow> e = ValueError
        | Inr volumes \<Rightarrow> False"
    by code_simp
  then show ?thesis
    using f l by (simp split: sum.splits)
qed

section \<open>The methods leave the object unchanged\<close>

named_theorems keeps_self_intros

lemma keeps_self_return [keeps_self_intros]: "keeps_self (py_return x)"
  by (simp add: keeps_self_def py_return_def)

lemma keeps_self_raise [keeps_self_intros]: "keeps_self (py_raise e)"
  by (simp add: keeps_self_def py_raise_def)

lemma keeps_self_lift [keeps_self_intros]: "keeps_self (py_lift r)"
  by (simp add: keeps_self_def py_lift_def)

lemma keeps_self_LOG [keeps_self_intros]: "keeps_self (LOG lvl msg)"
  by (simp add: keeps_self_def LOG_def)

lemma keeps_self_run_command [keeps_self_intros]: "keeps_self (run_command inst c)"
  by (simp add: keeps_self_def run_command_def split: prod.splits)

lemma keeps_self_run_pool_destroy [keeps_self_intros]: "keeps_self (run_pool_destroy inst name)"
  by (simp add: keeps_self_def run_pool_destroy_def split: prod.splits)

lemma keeps_self_bind [keeps_self_intros]:
  assumes "keeps_self m" and "\<And>x. keeps_self (f x)"
  shows "keeps_self (py_bind m f)"
  unfolding keeps_self_def
proof
  fix s
  show "self (snd (py_bind m f s)) = self s"
  proof (cases "m s")
    case (Pair r s')
    then have "self s' = self s"
      using assms(1) by (auto simp: keeps_self_def dest: spec[of _ s])
    then show ?thesis
      using Pair assms(2) by (cases r) (auto simp: py_bind_def keeps_self_def)
  qed
qed

lemma keeps_self_try [keeps_self_intros]:
  assumes "keeps_self m" and "keeps_self h"
  shows "keeps_self (py_try m es h)"
  unfolding keeps_self_def
proof
  fix s
  show "self (snd (py_try m es h s)) = self s"
  proof (cases "m s")
    case (Pair r s')
    then have "self s' = self s"
      using assms(1) by (auto simp: keeps_self_def dest: spec[of _ s])
    then show ?thesis
      using Pair assms(2) by (cases r) (auto simp: py_try_def keeps_self_def)
  qed
qed

lemma keeps_self_if [keeps_self_intros]:
  "keeps_self a \<Longrightarrow> keeps_self b \<Longrightarrow> keeps_self (if c then a else b)"
  by simp

lemma keeps_self_bind_reads_self [keeps_self_intros]:
  assumes "\<And>s0. keeps_self (m s0)" and "\<And>x. keeps_self (k x)"
  shows "keeps_self (\<lambda>s. py_bind (m s) k s)"
  unfolding keeps_self_def
proof
  fix s
  have "keeps_self (py_bind (m s) k)"
    using assms by (rule keeps_self_bind)
  then show "self (snd (py_bind (m s) k s)) = self s"
    by (simp add: keeps_self_def)
qed

lemma keeps_self_list_pools [keeps_self_intros]: "keeps_self list_pools"
  unfolding list_pools_def sp_virsh_def by (intro keeps_self_intros)

lemma keeps_self_pool_exists [keeps_self_intros]: "keeps_self (pool_exists name)"
  unfolding pool_exists_def by (intro keeps_self_intros)

lemma keeps_self_pool_state [keeps_self_intros]: "keeps_self (pool_state name)"
  unfolding pool_state_def by (intro keeps_self_intros)

lemma keeps_self_pool_autostart [keeps_self_intros]: "keeps_self (pool_autostart name)"
  unfolding pool_autostart_def by (intro keeps_self_intros)

lemma keeps_self_pool_info [keeps_self_intros]: "keeps_self (pool_info name)"
  unfolding pool_info_def sp_virsh_def by (intro keeps_self_intros)

lemma keeps_self_get_pool_uuid [keeps_self_intros]: "keeps_self (get_pool_uuid name)"
  unfolding get_pool_uuid_def by (intro keeps_self_intros)

lemma keeps_self_is_pool_active [keeps_self_intros]: "keeps_self (is_pool_active name)"
  unfolding is_pool_active_def by (intro keeps_self_intros)

lemma keeps_self_is_pool_persistent [keeps_self_intros]: "keeps_self (is_pool_persistent name)"
  unfolding is_pool_persistent_def by (intro keeps_self_intros)

lemma keeps_self_delete_pool [keeps_self_intros]: "keeps_self (delete_pool name)"
  unfolding delete_pool_def sp_virsh_def by (intro keeps_self_intros)

lemma keeps_self_set_pool_autostart [keeps_self_intros]: "keeps_self (set_pool_autostart name extra)"
  unfolding set_pool_autostart_def sp_virsh_def by (intro keeps_self_intros)

lemma keeps_self_build_pool [keeps_self_intros]: "keeps_self (build_pool name options dargs)"
  unfolding build_pool_def sp_virsh_def by (intro keeps_self_intros)

lemma keeps_self_start_pool [keeps_self_intros]: "keeps_self (start_pool name)"
  unfolding start_pool_def sp_virsh_def by (intro keeps_self_intros)

lemma keeps_self_destroy_pool [keeps_self_intros]: "keeps_self (destroy_pool name)"
  unfolding destroy_pool_def by (intro keeps_self_intros)

lemma keeps_self_define_as [keeps_self_intros]:
  "keeps_self (define_as name pool_type target_path extra ok_msg err_msg)"
  unfolding define_as_def sp_virsh_def by (intro keeps_self_intros)

lemma keeps_self_list_volumes [keeps_self_intros]: "keeps_self list_volumes"
  by (simp add: keeps_self_def list_volumes_self)

lemma keeps_self_volume_exists [keeps_self_intros]: "keeps_self (volume_exists name)"
  unfolding volume_exists_def by (intro keeps_self_intros)

lemma keeps_self_volume_info [keeps_self_intros]: "keeps_self (volume_info name)"
  by (simp add: keeps_self_def volume_info_def py_defs split: prod.splits option.splits)

lemma keeps_self_pv_try_command [keeps_self_intros]: "keeps_self (pv_try_command c msg)"
  unfolding pv_try_command_def pv_virsh_def by (intro keeps_self_intros)

lemma keeps_self_create_volume [keeps_self_intros]:
  "keeps_self (create_volume name capability allocation frmt)"
  unfolding create_volume_def
  by (intro keeps_self_intros)

lemma keeps_self_delete_volume [keeps_self_intros]: "keeps_self (delete_volume name)"
  unfolding delete_volume_def
  by (intro keeps_self_intros)

lemma keeps_self_clone_volume [keeps_self_intros]: "keeps_self (clone_volume old_name new_name)"
  unfolding clone_volume_def
  by (intro keeps_self_intros)

lemma keeps_self_define_dir_pool [keeps_self_intros]: "keeps_self (define_dir_pool name target_path)"
  unfolding define_dir_pool_def by (rule keeps_self_define_as)

lemma keeps_self_define_fs_pool [keeps_self_intros]:
  "keeps_self (define_fs_pool name block_device target_path)"
  unfolding define_fs_pool_def by (rule keeps_self_define_as)

lemma keeps_self_define_lvm_pool [keeps_self_intros]:
  "keeps_self (define_lvm_pool name block_device vg_name target_path)"
  unfolding define_lvm_pool_def by (rule keeps_self_define_as)

lemma keeps_self_define_disk_pool [keeps_self_intros]:
  "keeps_self (define_disk_pool name block_device target_path)"
  unfolding define_disk_pool_def by (rule keeps_self_define_as)

lemma keeps_self_define_iscsi_pool [keeps_self_intros]:
  "keeps_self (define_iscsi_pool name source_host source_dev target_path)"
  unfolding define_iscsi_pool_def by (rule keeps_self_define_as)

lemma keeps_self_define_netfs_pool [keeps_self_intros]:
  "keeps_self (define_netfs_pool name source_host source_path target_path)"
  unfolding define_netfs_pool_def by (rule keeps_self_define_as)

lemma keeps_self_define_rbd_pool [keeps_self_intros]:
  "keeps_self (define_rbd_pool name source_host source_name extra)"
  unfolding define_rbd_pool_def by (rule keeps_self_define_as)

lemma keeps_selfD: "keeps_self m \<Longrightarrow> self (snd (m s)) = self s"
  by (simp add: keeps_self_def)

lemma list_pools_fresh:
  "calls (snd (list_pools s)) = calls s @ [virsh_pool_list ''--all'']"
  "fst (list_pools s) =
     (case fst (command (StoragePool.virsh_instance (self s)) (virsh_pool_list ''--all'') (world s)) of
        None \<Rightarrow> Inl CmdError
      | Some stdout_text \<Rightarrow> list_pools_parse stdout_text)"
  by (simp_all add: list_pools_def py_defs split: prod.splits option.splits)

lemma pool_info_fresh:
  "calls (snd (pool_info name s)) = calls s @ [virsh_pool_info name]"
  "fst (pool_info name s) =
     (case fst (command (StoragePool.virsh_instance (self s)) (virsh_pool_info name) (world s)) of
        None \<Rightarrow> Inr Map.empty
      | Some stdout_text \<Rightarrow> Inr (pool_info_parse stdout_text))"
  by (simp_all add: pool_info_def py_defs split: prod.splits option.splits)

lemma list_volumes_fresh:
  "fst (list_volumes t) =
     (case fst (command (PoolVolume.virsh_instance (self t)) (virsh_vol_list (pool_name (self t)))
                  (world t)) of
        None \<Rightarrow> Inr Map.empty
      | Some stdout_text \<Rightarrow> list_volumes_parse stdout_text)"
  by (simp add: list_volumes_def py_defs split: prod.splits option.splits)

lemma volume_info_fresh:
  "calls (snd (volume_info name t)) = calls t @ [virsh_vol_info name (pool_name (self t))]"
  "fst (volume_info name t) =
     (case fst (command (PoolVolume.virsh_instance (self t)) (virsh_vol_info name (pool_name (self t)))
                  (world t)) of
        None \<Rightarrow> Inr Map.empty
      | Some stdout_text \<Rightarrow> volume_info_parse stdout_text)"
  by (simp_all add: volume_info_def py_defs split: prod.splits option.splits)

text \<open>
  Claim C7. No method of \<open>StoragePool\<close> or \<open>PoolVolume\<close> changes the object it is
  called on: \<open>self\<close>, that is \<open>virsh_instance\<close> and for a \<open>PoolVolume\<close> also
  \<open>pool_name\<close>, is the same after the call. Nothing is cached: a query called twice in
  a row calls its virsh function twice, and the second result is computed from the reply
  that this second call gets from the daemon.
\<close>

theorem methods_keep_self:
  fixes s :: "'w sp_state" and t :: "'w pv_state"
  shows "self (snd (list_pools s)) = self s
       \<and> self (snd (pool_exists name s)) = self s
       \<and> self (snd (pool_state name s)) = self s
       \<and> self (snd (pool_autostart name s)) = self s
       \<and> self (snd (pool_info name s)) = self s
       \<and> self (snd (get_pool_uuid name s)) = self s
       \<and> self (snd (is_pool_active name s)) = self s
       \<and> self (snd (is_pool_persistent name s)) = self s
       \<and> self (snd (delete_pool name s)) = self s
       \<and> self (snd (set_pool_autostart name extra s)) = self s
       \<and> self (snd (build_pool name options dargs s)) = self s
       \<and> self (snd (start_pool name s)) = self s
       \<and> self (snd (destroy_pool name s)) = self s
       \<and> self (snd (define_dir_pool name target_path s)) = self s
       \<and> self (snd (define_fs_pool name block_device target_path s)) = self s
       \<and> self (snd (define_lvm_pool name block_device vg_name target_path s)) = self s
       \<and> self (snd (define_disk_pool name block_device target_path s)) = self s
       \<and> self (snd (define_iscsi_pool name source_host source_dev target_path s)) = self s
       \<and> self (snd (define_netfs_pool name source_host source_path target_path s)) = self s
       \<and> self (snd (define_rbd_pool name source_host source_name extra s)) = self s
       \<and> self (snd (list_volumes t)) = self t
       \<and> self (snd (volume_exists name t)) = self t
       \<and> self (snd (volume_info name t)) = self t
       \<and> self (snd (create_volume name capability allocation frmt t)) = self t
       \<and> self (snd (delete_volume name t)) = self t
       \<and> self (snd (clone_volume name new_name t)) = self t
       \<and> calls (snd (list_pools (snd (list_pools s))))
            = calls s @ [virsh_pool_list ''--all'', virsh_pool_list ''--all'']
       \<and> fst (list_pools (snd (list_pools s))) =
            (case fst (command (StoragePool.virsh_instance (self s)) (virsh_pool_list ''--all'')
                         (world (snd (list_pools s)))) of
               None \<Rightarrow> Inl CmdError
             | Some stdout_text \<Rightarrow> list_pools_parse stdout_text)
       \<and> calls (snd (pool_info name (snd (pool_info name s))))
            = calls s @ [virsh_pool_info name, virsh_pool_info name]
       \<and> fst (pool_info name (snd (pool_info name s))) =
            (case fst (command (StoragePool.virsh_instance (self s)) (virsh_pool_info name)
                         (world (snd (pool_info name s)))) of
               None \<Rightarrow> Inr Map.empty
             | Some stdout_text \<Rightarrow> Inr (pool_info_parse stdout_text))
       \<and> calls (snd (list_volumes (snd (list_volumes t))))
            = calls t @ [virsh_vol_list (pool_name (self t)), virsh_vol_list (pool_name (self t))]
       \<and> fst (list_volumes (snd (list_volumes t))) =
            (case fst (command (PoolVolume.virsh_instance (self t)) (virsh_vol_list (pool_name (self t)))
                         (world (snd (list_volumes t)))) of
               None \<Rightarrow> Inr Map.empty
             | Some stdout_text \<Rightarrow> list_volumes_parse stdout_text)
       \<and> calls (snd (volume_info name (snd (volume_info name t))))
            = calls t @ [virsh_vol_info name (pool_name (self t)), virsh_vol_info name (pool_name (self t))]
       \<and> fst (volume_info name (snd (volume_info name t))) =
            (case fst (command (PoolVolume.virsh_instance (self t)) (virsh_vol_info name (pool_name (self t)))
                         (world (snd (volume_info name t)))) of
               None \<Rightarrow> Inr Map.empty
             | Some stdout_text \<Rightarrow> volume_info_parse stdout_text)"
proof -
  have frame: "self (snd (list_pools s)) = self s" "self (snd (pool_info name s)) = self s"
    "self (snd (list_volumes t)) = self t" "self (snd (volume_info name t)) = self t"
    by (simp_all add: keeps_selfD keeps_self_intros)
  have fresh: "calls (snd (list_pools (snd (list_pools s))))
            = calls s @ [virsh_pool_list ''--all'', virsh_pool_list ''--all'']"
    "calls (snd (pool_info name (snd (pool_info name s))))
            = calls s @ [virsh_pool_info name, virsh_pool_info name]"
    "calls (snd (list_volumes (snd (list_volumes t))))
            = calls t @ [virsh_vol_list (pool_name (self t)), virsh_vol_list (pool_name (self t))]"
    "calls (snd (volume_info name (snd (volume_info name t))))
            = calls t @ [virsh_vol_info name (pool_name (self t)), virsh_vol_info name (pool_name (self t))]"
    by (simp_all add: list_pools_fresh(1) pool_info_fresh(1) list_volumes_calls volume_info_fresh(1) frame)
  show ?thesis
    by (intro conjI)
       (simp_all only: keeps_selfD keeps_self_intros fresh
          list_pools_fresh(2)[of "snd (list_pools s)"] pool_info_fresh(2)[of name "snd (pool_info name s)"]
          list_volumes_fresh[of "snd (list_volumes t)"]
          volume_info_fresh(2)[of name "snd (volume_info name t)"] frame)
qed

section \<open>A failed virsh command\<close>

lemma sp_virsh_fails:
  "cmd_fails (StoragePool.virsh_instance (self s)) c (world s) \<Longrightarrow>
   fst (sp_virsh c s) = Inl CmdError \<and> log_records (snd (sp_virsh c s)) = log_records s"
  by (auto simp: cmd_fails_def py_defs split: prod.splits)

lemma pv_virsh_fails:
  "cmd_fails (PoolVolume.virsh_instance (self t)) c (world t) \<Longrightarrow>
   fst (pv_virsh c t) = Inl CmdError \<and> log_records (snd (pv_virsh c t)) = log_records t"
  by (auto simp: cmd_fails_def py_defs split: prod.splits)

lemma define_as_fails:
  assumes "cmd_fails (StoragePool.virsh_instance (self s))
             (virsh_pool_define_as name pool_type target_path extra) (world s)"
  shows "False_after_error_record s (define_as name pool_type target_path extra ok_msg err_msg s)"
  using sp_virsh_fails[OF assms]
  by (cases "sp_virsh (virsh_pool_define_as name pool_type target_path extra) s")
     (simp add: define_as_def False_after_error_record_def py_bind_def py_try_def py_return_def LOG_def)

lemma set_pool_autostart_fails:
  assumes "cmd_fails (StoragePool.virsh_instance (self s)) (virsh_pool_autostart name extra) (world s)"
  shows "False_after_error_record s (set_pool_autostart name extra s)"
  using sp_virsh_fails[OF assms]
  by (cases "sp_virsh (virsh_pool_autostart name extra) s")
     (simp add: set_pool_autostart_def False_after_error_record_def py_bind_def py_try_def
        py_return_def LOG_def)

lemma build_pool_fails:
  assumes "cmd_fails (StoragePool.virsh_instance (self s)) (virsh_pool_build name options dargs) (world s)"
  shows "False_after_error_record s (build_pool name options dargs s)"
  using sp_virsh_fails[OF assms]
  by (cases "sp_virsh (virsh_pool_build name options dargs) s")
     (simp add: build_pool_def False_after_error_record_def py_bind_def py_try_def
        py_return_def LOG_def)

lemma start_pool_fails:
  assumes "fst (is_pool_active name s) = Inr False"
    and "cmd_fails (StoragePool.virsh_instance (self s)) (virsh_pool_start name)
           (world (snd (is_pool_active name s)))"
  shows "False_after_error_record (snd (is_pool_active name s)) (start_pool name s)"
proof -
  obtain s1 where a: "is_pool_active name s = (Inr False, s1)"
    using assms(1) by (cases "is_pool_active name s") simp
  have "self s1 = self s"
    using keeps_selfD[OF keeps_self_is_pool_active, of name s] a by simp
  then have "cmd_fails (StoragePool.virsh_instance (self s1)) (virsh_pool_start name) (world s1)"
    using assms(2) a by simp
  from sp_virsh_fails[OF this] show ?thesis
    using a
    by (cases "sp_virsh (virsh_pool_start name) s1")
       (simp add: start_pool_def False_after_error_record_def py_bind_def py_try_def
          py_return_def LOG_def)
qed

lemma pv_try_command_fails:
  assumes "cmd_fails (PoolVolume.virsh_instance (self t)) c (world t)"
  shows "False_after_error_record t (pv_try_command c msg t)"
  using pv_virsh_fails[OF assms]
  by (cases "pv_virsh c t")
     (simp add: pv_try_command_def False_after_error_record_def py_bind_def py_try_def
        py_return_def LOG_def)

lemma False_after_error_recordD:
  "False_after_error_record s1 r \<Longrightarrow> \<exists>s'. r = (Inr False, s')"
  by (cases r) (simp add: False_after_error_record_def)

lemma create_volume_fails:
  assumes "fst (volume_exists name t) = Inr False"
    and "cmd_fails (PoolVolume.virsh_instance (self t))
           (virsh_vol_create_as name (pool_name (self t)) capability allocation frmt)
           (world (snd (volume_exists name t)))"
  shows "False_after_error_record (snd (volume_exists name t))
           (create_volume name capability allocation frmt t)"
proof -
  obtain t1 where a: "volume_exists name t = (Inr False, t1)"
    using assms(1) by (cases "volume_exists name t") simp
  have self1: "self t1 = self t"
    using keeps_selfD[OF keeps_self_volume_exists, of name t] a by simp
  then have "cmd_fails (PoolVolume.virsh_instance (self t1))
           (virsh_vol_create_as name (pool_name (self t)) capability allocation frmt) (world t1)"
    using assms(2) a by simp
  from pv_try_command_fails[OF this, of "''Create volume failed:%s''"] show ?thesis
    using a self1 False_after_error_recordD[of t1 "pv_try_command
           (virsh_vol_create_as name (pool_name (self t)) capability allocation frmt)
           ''Create volume failed:%s'' t1"]
    by (auto simp: create_volume_def py_bind_def py_return_def)
qed

lemma delete_volume_fails:
  assumes "fst (volume_exists name t) = Inr True"
    and "cmd_fails (PoolVolume.virsh_instance (self t))
           (virsh_vol_delete name (pool_name (self t))) (world (snd (volume_exists name t)))"
  shows "False_after_error_record (snd (volume_exists name t)) (delete_volume name t)"
proof -
  obtain t1 where a: "volume_exists name t = (Inr True, t1)"
    using assms(1) by (cases "volume_exists name t") simp
  have self1: "self t1 = self t"
    using keeps_selfD[OF keeps_self_volume_exists, of name t] a by simp
  then have "cmd_fails (PoolVolume.virsh_instance (self t1))
           (virsh_vol_delete name (pool_name (self t))) (world t1)"
    using assms(2) a by simp
  from pv_try_command_fails[OF this, of "''Delete volume failed:%s''"] show ?thesis
    using a self1 False_after_error_recordD[of t1 "pv_try_command
           (virsh_vol_delete name (pool_name (self t))) ''Delete volume failed:%s'' t1"]
    by (auto simp: delete_volume_def py_bind_def py_return_def)
qed

lemma clone_volume_fails:
  assumes "fst (volume_exists old_name t) = Inr True"
    and "fst (volume_exists new_name (snd (volume_exists old_name t))) = Inr False"
    and "cmd_fails (PoolVolume.virsh_instance (self t))
           (virsh_vol_clone old_name new_name (pool_name (self t)))
           (world (snd (volume_exists new_name (snd (volume_exists old_name t)))))"
  shows "False_after_error_record (snd (volume_exists new_name (snd (volume_exists old_name t))))
           (clone_volume old_name new_name t)"
proof -
  obtain t1 where a: "volume_exists old_name t = (Inr True, t1)"
    using assms(1) by (cases "volume_exists old_name t") simp
  obtain t2 where b: "volume_exists new_name t1 = (Inr False, t2)"
    using assms(2) a by (cases "volume_exists new_name t1") simp
  have self1: "self t1 = self t"
    using keeps_selfD[OF keeps_self_volume_exists, of old_name t] a by simp
  have self2: "self t2 = self t"
    using keeps_selfD[OF keeps_self_volume_exists, of new_name t1] b self1 by simp
  then have "cmd_fails (PoolVolume.virsh_instance (self t2))
           (virsh_vol_clone old_name new_name (pool_name (self t))) (world t2)"
    using assms(3) a b by simp
  from pv_try_command_fails[OF this, of "''Clone volume failed:%s''"] show ?thesis
    using a b self2 False_after_error_recordD[of t2 "pv_try_command
           (virsh_vol_clone old_name new_name (pool_name (self t))) ''Clone volume failed:%s'' t2"]
    by (auto simp: clone_volume_def py_bind_def py_return_def)
qed

lemma pool_list_fails:
  assumes "cmd_fails (StoragePool.virsh_instance (self s)) (virsh_pool_list ''--all'') (world s)"
  shows "fst (list_pools s) = Inl CmdError" "fst (pool_exists name s) = Inr False"
    "fst (pool_state name s) = Inr None" "fst (pool_autostart name s) = Inr None"
  using sp_virsh_fails[OF assms]
  by (cases "sp_virsh (virsh_pool_list ''--all'') s";
      simp add: list_pools_def pool_exists_def pool_state_def pool_autostart_def
        py_bind_def py_try_def py_return_def)+

lemma pool_info_fails:
  assumes "cmd_fails (StoragePool.virsh_instance (self s)) (virsh_pool_info name) (world s)"
  shows "fst (pool_info name s) = Inr Map.empty"
  using sp_virsh_fails[OF assms]
  by (cases "sp_virsh (virsh_pool_info name) s")
     (simp add: pool_info_def py_bind_def py_try_def py_return_def)

lemma list_volumes_fails:
  assumes "cmd_fails (PoolVolume.virsh_instance (self t)) (virsh_vol_list (pool_name (self t))) (world t)"
  shows "fst (list_volumes t) = Inr Map.empty"
    "log_records (snd (list_volumes t)) = log_records t @ [(ERROR, ''List volume failed: %s'')]"
  using pv_virsh_fails[OF assms]
  by (cases "pv_virsh (virsh_vol_list (pool_name (self t))) t";
      simp add: list_volumes_def py_bind_def py_return_def LOG_def)+

lemma volume_info_fails:
  assumes "cmd_fails (PoolVolume.virsh_instance (self t)) (virsh_vol_info name (pool_name (self t))) (world t)"
  shows "fst (volume_info name t) = Inr Map.empty"
    "log_records (snd (volume_info name t))
       = log_records t @ [(ERROR, ''Get volume information failed: %s'')]"
  using pv_virsh_fails[OF assms]
  by (cases "pv_virsh (virsh_vol_info name (pool_name (self t))) t";
      simp add: volume_info_def py_bind_def py_return_def LOG_def)+

lemma sp_virsh_fails_eq:
  assumes "cmd_fails (StoragePool.virsh_instance (self s)) c (world s)"
  shows "sp_virsh c s = (Inl CmdError, snd (sp_virsh c s))"
    and "log_records (snd (sp_virsh c s)) = log_records s"
  using sp_virsh_fails[OF assms] by (simp_all add: prod_eq_iff)

lemma pool_list_fails_log:
  assumes "cmd_fails (StoragePool.virsh_instance (self s)) (virsh_pool_list ''--all'') (world s)"
  shows "log_records (snd (list_pools s)) = log_records s"
    "log_records (snd (pool_exists name s)) = log_records s"
    "log_records (snd (pool_state name s)) = log_records s"
    "log_records (snd (pool_autostart name s)) = log_records s"
  using sp_virsh_fails[OF assms]
  by (cases "sp_virsh (virsh_pool_list ''--all'') s";
      simp add: list_pools_def pool_exists_def pool_state_def pool_autostart_def
        py_bind_def py_try_def py_return_def)+

lemma is_pool_active_fails:
  assumes "cmd_fails (StoragePool.virsh_instance (self s)) (virsh_pool_list ''--all'') (world s)"
  shows "is_pool_active name s = (Inr False, snd (pool_state name s))"
    and "log_records (snd (is_pool_active name s)) = log_records s"
proof -
  obtain s1 where p: "pool_state name s = (Inr None, s1)"
    using pool_list_fails(3)[OF assms, of name] by (cases "pool_state name s") simp
  then show "is_pool_active name s = (Inr False, snd (pool_state name s))"
    by (simp add: is_pool_active_def py_bind_def py_return_def)
  then show "log_records (snd (is_pool_active name s)) = log_records s"
    using pool_list_fails_log(3)[OF assms, of name] by simp
qed

lemma destroy_pool_list_fails:
  assumes "cmd_fails (StoragePool.virsh_instance (self s)) (virsh_pool_list ''--all'') (world s)"
  shows "fst (destroy_pool name s) = Inr True"
    and "log_records (snd (destroy_pool name s))
           = log_records s @ [(INFO, ''pool '%s' is already inactive.'')]"
  using is_pool_active_fails[OF assms, of name] pool_list_fails_log(3)[OF assms, of name]
  by (simp_all add: destroy_pool_def py_bind_def py_return_def LOG_def)

lemma destroy_pool_active:
  assumes "fst (is_pool_active name s) = Inr True"
  shows "fst (destroy_pool name s)
           = Inr (fst (pool_destroy (StoragePool.virsh_instance (self s)) name
                    (world (snd (is_pool_active name s)))))"
    and "log_records (snd (destroy_pool name s)) = log_records (snd (is_pool_active name s))"
proof -
  obtain s1 where a: "is_pool_active name s = (Inr True, s1)"
    using assms by (cases "is_pool_active name s") simp
  have self1: "self s1 = self s"
    using keeps_selfD[OF keeps_self_is_pool_active, of name s] a by simp
  show "fst (destroy_pool name s)
           = Inr (fst (pool_destroy (StoragePool.virsh_instance (self s)) name
                    (world (snd (is_pool_active name s)))))"
    using a self1
    by (simp add: destroy_pool_def py_bind_def run_pool_destroy_def split: prod.splits)
  show "log_records (snd (destroy_pool name s)) = log_records (snd (is_pool_active name s))"
    using a by (simp add: destroy_pool_def py_bind_def run_pool_destroy_def split: prod.splits)
qed

lemma pool_info_fails_more:
  assumes "cmd_fails (StoragePool.virsh_instance (self s)) (virsh_pool_info name) (world s)"
  shows "log_records (snd (pool_info name s)) = log_records s"
    and "fst (get_pool_uuid name s) = Inl KeyError"
    and "fst (is_pool_persistent name s) = Inl KeyError"
    and "log_records (snd (get_pool_uuid name s)) = log_records s"
    and "log_records (snd (is_pool_persistent name s)) = log_records s"
  using sp_virsh_fails[OF assms]
  by (cases "sp_virsh (virsh_pool_info name) s";
      simp add: pool_info_def get_pool_uuid_def is_pool_persistent_def dict_get_def
        py_bind_def py_try_def py_return_def py_lift_def)+

lemma vol_list_fails_more:
  assumes "cmd_fails (PoolVolume.virsh_instance (self t)) (virsh_vol_list (pool_name (self t))) (world t)"
  shows "False_after_error_record t (volume_exists name t)"
    and "fst (delete_volume name t) = Inr True"
    and "fst (clone_volume name new_name t) = Inr False"
    and "log_records (snd (delete_volume name t))
           = log_records t @ [(ERROR, ''List volume failed: %s''),
                              (INFO, ''Volume '%s' does not exist.'')]"
    and "log_records (snd (clone_volume name new_name t))
           = log_records t @ [(ERROR, ''List volume failed: %s''),
                              (INFO, ''Volume '%s' does not exist or '%s' has been exist.'')]"
proof -
  obtain t1 where l: "list_volumes t = (Inr Map.empty, t1)"
    and g: "log_records t1 = log_records t @ [(ERROR, ''List volume failed: %s'')]"
    using list_volumes_fails[OF assms] by (cases "list_volumes t") simp
  have v: "volume_exists n t = (Inr False, t1)" for n
    using l by (simp add: volume_exists_def py_bind_def py_return_def)
  show "False_after_error_record t (volume_exists name t)"
    using v[of name] g by (simp add: False_after_error_record_def)
  show "fst (delete_volume name t) = Inr True"
    using v[of name] by (simp add: delete_volume_def py_bind_def py_return_def LOG_def)
  show "fst (clone_volume name new_name t) = Inr False"
    using v[of name] by (simp add: clone_volume_def py_bind_def py_return_def LOG_def)
  show "log_records (snd (delete_volume name t))
           = log_records t @ [(ERROR, ''List volume failed: %s''),
                              (INFO, ''Volume '%s' does not exist.'')]"
    using v[of name] g by (simp add: delete_volume_def py_bind_def py_return_def LOG_def)
  show "log_records (snd (clone_volume name new_name t))
           = log_records t @ [(ERROR, ''List volume failed: %s''),
                              (INFO, ''Volume '%s' does not exist or '%s' has been exist.'')]"
    using v[of name] g by (simp add: clone_volume_def py_bind_def py_return_def LOG_def)
qed

lemma delete_pool_destroy_fails:
  assumes "fst (is_pool_active name s) = Inr True"
    and "\<not> fst (pool_destroy (StoragePool.virsh_instance (self s)) name
               (world (snd (is_pool_active name s))))"
  shows "False_after_error_record
           (snd (run_pool_destroy StoragePool.virsh_instance name (snd (is_pool_active name s))))
           (delete_pool name s)"
proof -
  obtain s1 where a: "is_pool_active name s = (Inr True, s1)"
    using assms(1) by (cases "is_pool_active name s") simp
  have self1: "self s1 = self s"
    using keeps_selfD[OF keeps_self_is_pool_active, of name s] a by simp
  have "fst (run_pool_destroy StoragePool.virsh_instance name s1) = Inr False"
    using assms(2) a self1 by (auto simp: run_pool_destroy_def split: prod.splits)
  then obtain s2 where d: "run_pool_destroy StoragePool.virsh_instance name s1 = (Inr False, s2)"
    by (cases "run_pool_destroy StoragePool.virsh_instance name s1") simp
  show ?thesis
    using a d
    by (simp add: delete_pool_def py_bind_def py_return_def LOG_def False_after_error_record_def)
qed

lemma delete_pool_undefine_fails:
  fixes s :: "'w sp_state" and name :: string and active :: bool
  defines "s1 \<equiv> snd (is_pool_active name s)"
  defines "su \<equiv> (if active then snd (run_pool_destroy StoragePool.virsh_instance name s1) else s1)"
  defines "s2 \<equiv> snd (sp_virsh (virsh_pool_undefine name) su)"
  assumes act: "fst (is_pool_active name s) = Inr active"
    and des: "if active then fst (pool_destroy (StoragePool.virsh_instance (self s)) name (world s1))
              else True"
    and und: "cmd_fails (StoragePool.virsh_instance (self s)) (virsh_pool_undefine name) (world su)"
  shows "fst (pool_exists name s2) = Inr True \<Longrightarrow>
           False_after_error_record (snd (pool_exists name s2)) (delete_pool name s)"
    and "fst (pool_exists name s2) = Inr False \<Longrightarrow>
           fst (delete_pool name s) = Inr True
         \<and> log_records (snd (delete_pool name s))
             = log_records (snd (pool_exists name s2)) @ [(INFO, ''Deleted pool '%s'' @ [CHR 0x27])]"
proof -
  have a: "is_pool_active name s = (Inr active, s1)"
    using act by (simp add: s1_def prod_eq_iff)
  have self1: "self s1 = self s"
    unfolding s1_def by (rule keeps_selfD[OF keeps_self_is_pool_active])
  have d: "(if active then run_pool_destroy StoragePool.virsh_instance name else py_return True) s1
             = (Inr True, su)"
    using des self1
    by (auto simp: su_def run_pool_destroy_def py_return_def split: prod.splits)
  have selfu: "self su = self s"
    using self1 keeps_selfD[OF keeps_self_run_pool_destroy, of StoragePool.virsh_instance name s1]
    by (simp add: su_def)
  have "cmd_fails (StoragePool.virsh_instance (self su)) (virsh_pool_undefine name) (world su)"
    using und selfu by simp
  then have u: "sp_virsh (virsh_pool_undefine name) su = (Inl CmdError, s2)"
    using sp_virsh_fails_eq(1) by (simp add: s2_def)
  have dp: "delete_pool name s =
          py_bind (pool_exists name) (\<lambda>still_defined.
       if still_defined then
         py_bind (LOG ERROR ''Undefine pool '%s' failed:%s'') (\<lambda>_. py_return False)
       else
         py_bind (LOG INFO (''Deleted pool '%s'' @ [CHR 0x27])) (\<lambda>_. py_return True)) s2"
    using a d u by (simp add: delete_pool_def py_bind_def py_try_def py_return_def)
  show "False_after_error_record (snd (pool_exists name s2)) (delete_pool name s)"
    if "fst (pool_exists name s2) = Inr True"
    using that unfolding dp
    by (cases "pool_exists name s2")
       (simp add: py_bind_def py_return_def LOG_def False_after_error_record_def)
  show "fst (delete_pool name s) = Inr True
         \<and> log_records (snd (delete_pool name s))
             = log_records (snd (pool_exists name s2)) @ [(INFO, ''Deleted pool '%s'' @ [CHR 0x27])]"
    if "fst (pool_exists name s2) = Inr False"
    using that unfolding dp
    by (cases "pool_exists name s2") (simp add: py_bind_def py_return_def LOG_def)
qed




end
